theory Spec2Isabelle
  imports Main "HOL-Library.Word" "HOL-Library.AList"
begin

section \<open>ProxBoard: a controllable UDP relay\<close>

text \<open>
  A shallow embedding of \<^verbatim>\<open>src/src/ProxBoardService.ts\<close>, the service that
  \<^verbatim>\<open>src/index.ts\<close> starts: the frame codec, the port allocator, the session registry,
  the callbacks of a relay session and the handlers of the control channel.
  \<^verbatim>\<open>src/unnamed/part_000\<close> is the same service written for Node's \<^verbatim>\<open>dgram\<close> and
  \<^verbatim>\<open>ws\<close>. Its framing, relay and registry logic is the same; it differs in five places:
  its port allocator treats \<^verbatim>\<open>EADDRINUSE\<close> apart (modelled below as
  \<open>findAvailablePort_node\<close>), its codec decodes with \<^verbatim>\<open>Buffer.toString\<close>, which keeps
  a leading U+FEFF, its \<^verbatim>\<open>stopProxy\<close> deletes the entry in the callback of
  \<^verbatim>\<open>close\<close>, its \<^verbatim>\<open>createProxy\<close> has no answer when the session's bind fails,
  and its handler of authenticated messages catches the error of a message that parses
  to \<^verbatim>\<open>null\<close> and answers it.

  Conventions of the model.
  \<^item> A JavaScript string is its sequence of UTF-16 code units (\<open>16 word list\<close>); a byte
    buffer (\<^verbatim>\<open>ArrayBuffer\<close>, \<^verbatim>\<open>Uint8Array\<close>, \<^verbatim>\<open>Buffer\<close>) is an \<open>8 word list\<close>.
  \<^item> A JavaScript \<^verbatim>\<open>number\<close> that holds a port is an \<open>int\<close>: the ports the service
    handles come from UDP headers, from the loop counter of the allocator and from JSON
    numerals. Fractions and NaN are outside the model.
  \<^item> A thrown \<^verbatim>\<open>Error(message)\<close> is the value \<open>Inl (Error message)\<close>.
  \<^item> An \<^verbatim>\<open>async\<close> function runs in one step: no other event is handled between its
    \<^verbatim>\<open>await\<close>s. What the operating system answers to a bind is an argument.
  \<^item> Console output is left out, but for the warning of the relay session; of
    \<^verbatim>\<open>shutdown\<close> the model keeps what it does to the registry and the sockets.
\<close>

type_synonym byte = "8 word"
type_synonym buffer = "byte list"
type_synonym jsstring = "16 word list"

datatype error = Error string

subsection \<open>The platform's text codec\<close>

text \<open>
  \<^verbatim>\<open>new TextEncoder().encode(s)\<close> first reads the code units of \<open>s\<close> as Unicode scalar
  values: a high surrogate followed by a low surrogate is one supplementary code point,
  and a surrogate that stands alone is replaced by U+FFFD. Each scalar value then becomes
  one to four bytes of UTF-8.
\<close>

definition is_high_surrogate :: "nat \<Rightarrow> bool" where
  "is_high_surrogate c = (0xD800 \<le> c \<and> c \<le> 0xDBFF)"

definition is_low_surrogate :: "nat \<Rightarrow> bool" where
  "is_low_surrogate c = (0xDC00 \<le> c \<and> c \<le> 0xDFFF)"

fun scalar_values :: "nat list \<Rightarrow> nat list" where
  "scalar_values [] = []"
| "scalar_values [c] =
     (if is_high_surrogate c \<or> is_low_surrogate c then [0xFFFD] else [c])"
| "scalar_values (c # d # ds) =
     (if is_high_surrogate c then
        (if is_low_surrogate d
         then (0x10000 + (c - 0xD800) * 0x400 + (d - 0xDC00)) # scalar_values ds
         else 0xFFFD # scalar_values (d # ds))
      else if is_low_surrogate c then 0xFFFD # scalar_values (d # ds)
      else c # scalar_values (d # ds))"

definition utf8_of_scalar :: "nat \<Rightarrow> nat list" where
  "utf8_of_scalar cp =
     (if cp < 0x80 then [cp]
      else if cp < 0x800 then [0xC0 + cp div 64, 0x80 + cp mod 64]
      else if cp < 0x10000 then
        [0xE0 + cp div 4096, 0x80 + (cp div 64) mod 64, 0x80 + cp mod 64]
      else
        [0xF0 + cp div 262144, 0x80 + (cp div 4096) mod 64,
         0x80 + (cp div 64) mod 64, 0x80 + cp mod 64])"

definition TextEncoder_encode :: "jsstring \<Rightarrow> buffer" where
  "TextEncoder_encode s =
     map of_nat (concat (map utf8_of_scalar (scalar_values (map unat s))))"

text \<open>
  \<^verbatim>\<open>new TextDecoder().decode(bytes)\<close> is the UTF-8 decoder of the Encoding Standard in
  its default mode: not fatal, so every ill-formed sequence becomes U+FFFD, and with
  \<^verbatim>\<open>ignoreBOM\<close> false, so a leading U+FEFF is dropped from the output. The decoder's
  state is the code point under construction, the number of continuation bytes still
  needed, and the bounds the next continuation byte must lie in.
\<close>

record utf8_decoder =
  code_point :: nat
  bytes_needed :: nat
  lower_boundary :: nat
  upper_boundary :: nat

definition utf8_initial :: utf8_decoder where
  "utf8_initial =
     \<lparr>code_point = 0, bytes_needed = 0, lower_boundary = 0x80, upper_boundary = 0xBF\<rparr>"

definition utf8_lead :: "nat \<Rightarrow> utf8_decoder \<times> nat list" where
  "utf8_lead b =
     (if b \<le> 0x7F then (utf8_initial, [b])
      else if 0xC2 \<le> b \<and> b \<le> 0xDF then
        (utf8_initial\<lparr>code_point := b mod 32, bytes_needed := 1\<rparr>, [])
      else if 0xE0 \<le> b \<and> b \<le> 0xEF then
        (utf8_initial\<lparr>code_point := b mod 16, bytes_needed := 2,
           lower_boundary := (if b = 0xE0 then 0xA0 else 0x80),
           upper_boundary := (if b = 0xED then 0x9F else 0xBF)\<rparr>, [])
      else if 0xF0 \<le> b \<and> b \<le> 0xF4 then
        (utf8_initial\<lparr>code_point := b mod 8, bytes_needed := 3,
           lower_boundary := (if b = 0xF0 then 0x90 else 0x80),
           upper_boundary := (if b = 0xF4 then 0x8F else 0xBF)\<rparr>, [])
      else (utf8_initial, [0xFFFD]))"

definition utf8_step :: "utf8_decoder \<Rightarrow> nat \<Rightarrow> utf8_decoder \<times> nat list" where
  "utf8_step st b =
     (if bytes_needed st = 0 then utf8_lead b
      else if b < lower_boundary st \<or> upper_boundary st < b then
        (case utf8_lead b of (st', out) \<Rightarrow> (st', 0xFFFD # out))
      else if bytes_needed st = 1 then
        (utf8_initial, [code_point st * 64 + b mod 64])
      else
        (st\<lparr>code_point := code_point st * 64 + b mod 64,
            bytes_needed := bytes_needed st - 1,
            lower_boundary := 0x80, upper_boundary := 0xBF\<rparr>, []))"

fun utf8_run :: "utf8_decoder \<Rightarrow> nat list \<Rightarrow> nat list" where
  "utf8_run st [] = (if bytes_needed st = 0 then [] else [0xFFFD])"
| "utf8_run st (b # bs) =
     (case utf8_step st b of (st', out) \<Rightarrow> out @ utf8_run st' bs)"

definition utf16_of_scalar :: "nat \<Rightarrow> nat list" where
  "utf16_of_scalar cp =
     (if cp < 0x10000 then [cp]
      else [0xD800 + (cp - 0x10000) div 0x400, 0xDC00 + (cp - 0x10000) mod 0x400])"

fun strip_bom :: "nat list \<Rightarrow> nat list" where
  "strip_bom [] = []"
| "strip_bom (c # cs) = (if c = 0xFEFF then cs else c # cs)"

definition TextDecoder_decode :: "buffer \<Rightarrow> jsstring" where
  "TextDecoder_decode bytes =
     map of_nat (concat (map utf16_of_scalar
       (strip_bom (utf8_run utf8_initial (map unat bytes)))))"

subsection \<open>Typed-array primitives\<close>

text \<open>
  \<^verbatim>\<open>DataView.setUint8\<close> and \<^verbatim>\<open>setUint16\<close> store their argument modulo 256 and
  modulo 65536 (\<open>of_int\<close> into an \<open>8 word\<close> wraps in the same way); the 16-bit store
  is big-endian, as the source passes \<^verbatim>\<open>false\<close> for \<^verbatim>\<open>littleEndian\<close>.
  \<^verbatim>\<open>Uint8Array.set(source, offset)\<close> copies \<open>source\<close> over the bytes from \<open>offset\<close>
  on. The source only calls them inside the buffer it has just allocated, and only reads
  after its own length checks, so the range errors of the platform are never reached.
\<close>

definition setUint8 :: "buffer \<Rightarrow> nat \<Rightarrow> int \<Rightarrow> buffer" where
  "setUint8 buf byteOffset v = buf[byteOffset := of_int v]"

definition setUint16 :: "buffer \<Rightarrow> nat \<Rightarrow> int \<Rightarrow> buffer" where
  "setUint16 buf byteOffset v =
     buf[byteOffset := of_int (v div 256), Suc byteOffset := of_int v]"

definition uint8_set :: "buffer \<Rightarrow> buffer \<Rightarrow> nat \<Rightarrow> buffer" where
  "uint8_set buf source byteOffset =
     take byteOffset buf @ source @ drop (byteOffset + length source) buf"

definition getUint8 :: "buffer \<Rightarrow> nat \<Rightarrow> int" where
  "getUint8 buf byteOffset = uint (buf ! byteOffset)"

definition getUint16 :: "buffer \<Rightarrow> nat \<Rightarrow> int" where
  "getUint16 buf byteOffset =
     uint (buf ! byteOffset) * 256 + uint (buf ! Suc byteOffset)"

definition slice :: "buffer \<Rightarrow> nat \<Rightarrow> nat \<Rightarrow> buffer" where
  "slice buf start fin = take (fin - start) (drop start buf)"

subsection \<open>The frame codec\<close>

record proxy_message =
  targetHost :: jsstring
  targetPort :: int
  payload :: buffer

definition encodeProxyMessage :: "jsstring \<Rightarrow> int \<Rightarrow> buffer \<Rightarrow> error + buffer" where
  "encodeProxyMessage host port data =
     (let hostnameBuffer = TextEncoder_encode host;
          hostnameLength = length hostnameBuffer
      in if hostnameLength > 255 then Inl (Error ''Hostname is too long (max 255 bytes).'')
         else if port < 1 \<or> port > 65535
           then Inl (Error ''Target port must be between 1 and 65535.'')
         else
           let totalLength = 1 + hostnameLength + 2 + length data;
               buf0 = replicate totalLength 0;
               buf1 = setUint8 buf0 0 (int hostnameLength);
               buf2 = uint8_set buf1 hostnameBuffer 1;
               buf3 = setUint16 buf2 (1 + hostnameLength) port;
               buf4 = uint8_set buf3 data (1 + hostnameLength + 2)
           in Inr buf4)"

text \<open>
  \<^verbatim>\<open>getUint16\<close> never yields NaN, so the source's \<^verbatim>\<open>isNaN(targetPort)\<close> is false
  on every path; \<^verbatim>\<open>!targetHost\<close> holds of a string exactly when it is empty.
\<close>

definition decodeProxyMessage :: "buffer \<Rightarrow> error + proxy_message" where
  "decodeProxyMessage messageBuffer =
     (if length messageBuffer < 4 then Inl (Error ''Malformed message: too short.'')
      else
        let hostnameLength = nat (getUint8 messageBuffer 0)
        in if length messageBuffer < 1 + hostnameLength + 2
           then Inl (Error ''Malformed message: incomplete header.'')
           else
             let hostnameBytes = slice messageBuffer 1 (1 + hostnameLength);
                 host = TextDecoder_decode hostnameBytes;
                 port = getUint16 messageBuffer (1 + hostnameLength);
                 data = drop (1 + hostnameLength + 2) messageBuffer
             in if host = [] \<or> port < 1 \<or> port > 65535
                then Inl (Error ''Malformed message: Invalid host or port.'')
                else Inr \<lparr>targetHost = host, targetPort = port, payload = data\<rparr>)"

text \<open>
  The strings on which the text codec is the identity: \<^verbatim>\<open>String.prototype.isWellFormed\<close>
  (no surrogate stands alone), and no byte order mark in front.
\<close>

definition is_scalar :: "nat \<Rightarrow> bool" where
  "is_scalar cp = (cp < 0x110000 \<and> \<not> (0xD800 \<le> cp \<and> cp \<le> 0xDFFF))"

fun isWellFormed :: "nat list \<Rightarrow> bool" where
  "isWellFormed [] = True"
| "isWellFormed [c] = (\<not> is_high_surrogate c \<and> \<not> is_low_surrogate c)"
| "isWellFormed (c # d # ds) =
     (if is_high_surrogate c then is_low_surrogate d \<and> isWellFormed ds
      else \<not> is_low_surrogate c \<and> isWellFormed (d # ds))"

definition well_formed :: "jsstring \<Rightarrow> bool" where
  "well_formed s = isWellFormed (map unat s)"

definition starts_with_bom :: "jsstring \<Rightarrow> bool" where
  "starts_with_bom s = (case s of [] \<Rightarrow> False | c # _ \<Rightarrow> c = 0xFEFF)"

subsection \<open>Values that arrive as JSON\<close>

text \<open>
  The control channel hands the fields of a parsed JSON object to the service unchecked,
  so the service's arguments are arbitrary JSON values. \<open>js\<close> writes an ASCII literal
  of the source as a JavaScript string.
\<close>

datatype jsval =
    JUndefined
  | JNull
  | JBool bool
  | JNum int
  | JStr jsstring
  | JArray "jsval list"
  | JObject "(string \<times> jsval) list"

definition js :: "string \<Rightarrow> jsstring" where
  "js s = map of_char s"

fun truthy :: "jsval \<Rightarrow> bool" where
  "truthy JUndefined = False"
| "truthy JNull = False"
| "truthy (JBool b) = b"
| "truthy (JNum n) = (n \<noteq> 0)"
| "truthy (JStr s) = (s \<noteq> [])"
| "truthy (JArray _) = True"
| "truthy (JObject _) = True"

fun is_number :: "jsval \<Rightarrow> bool" where
  "is_number (JNum _) = True"
| "is_number _ = False"

text \<open>
  Reading a property: of \<^verbatim>\<open>null\<close> it throws a TypeError, of an object it is the
  field or \<^verbatim>\<open>undefined\<close>; the other values have none of the properties the service
  reads.
\<close>

fun get_prop :: "jsval \<Rightarrow> string \<Rightarrow> error + jsval" where
  "get_prop JNull k = Inl (Error ''TypeError'')"
| "get_prop JUndefined k = Inl (Error ''TypeError'')"
| "get_prop (JObject props) k =
     Inr (case map_of props k of None \<Rightarrow> JUndefined | Some v \<Rightarrow> v)"
| "get_prop _ k = Inr JUndefined"

subsection \<open>The service's state\<close>

record endpoint =
  address :: jsval
  port :: jsval

record ActiveProxy =
  proxySocket :: int
  proxyHost :: endpoint

text \<open>
  \<open>activeProxies\<close> is the \<^verbatim>\<open>Map<number, ActiveProxy>\<close> in insertion order. A UDP
  socket is named by the port it is bound to; \<open>open_sockets\<close> lists the sockets the
  service holds open.
\<close>

record service =
  minProxyPort :: int
  maxProxyPort :: int
  accessToken :: jsstring
  activeProxies :: "(int \<times> ActiveProxy) list"
  open_sockets :: "int list"

definition ProxBoardService :: "int \<Rightarrow> int \<Rightarrow> jsstring \<Rightarrow> service" where
  "ProxBoardService lo hi token =
     \<lparr>minProxyPort = lo, maxProxyPort = hi, accessToken = token,
      activeProxies = [], open_sockets = []\<rparr>"

definition has :: "(int \<times> ActiveProxy) list \<Rightarrow> int \<Rightarrow> bool" where
  "has m k = (map_of m k \<noteq> None)"

text \<open>\<^verbatim>\<open>Map.get\<close> compares keys without coercion: only a number finds a numeric key.\<close>

fun get :: "(int \<times> ActiveProxy) list \<Rightarrow> jsval \<Rightarrow> ActiveProxy option" where
  "get m (JNum k) = map_of m k"
| "get m _ = None"

text \<open>
  The outcome of binding a UDP socket to a port: bound, or an error with its
  \<^verbatim>\<open>code\<close> and \<^verbatim>\<open>message\<close>. The operating system decides it, so the model takes it
  as a function of the port, given by the caller.
\<close>

datatype bind_result = Bound | BindError string string

type_synonym udp_bind = "int \<Rightarrow> bind_result"

datatype message_text = Text string | Template string jsval string

record response =
  status :: string
  action :: "string option"
  message :: "message_text option"
  proxyPort :: "int option"
  proxies :: "(int \<times> endpoint) list option"

definition reply :: "string \<Rightarrow> string option \<Rightarrow> message_text \<Rightarrow> response" where
  "reply st act msg =
     \<lparr>status = st, action = act, message = Some msg, proxyPort = None, proxies = None\<rparr>"

subsection \<open>The port allocator\<close>

text \<open>
  \<^verbatim>\<open>src/src/ProxBoardService.ts\<close>: the loop runs from \<open>minProxyPort\<close> to
  \<open>maxProxyPort\<close>; a registered port is skipped; the test socket is bound and closed
  at once, and every failure of the bind is caught and moves on.
\<close>

function findAvailablePort_from :: "udp_bind \<Rightarrow> service \<Rightarrow> int \<Rightarrow> int option" where
  "findAvailablePort_from bind s p =
     (if p \<le> maxProxyPort s then
        (if has (activeProxies s) p then findAvailablePort_from bind s (p + 1)
         else
           (case bind p of
              Bound \<Rightarrow> Some p
            | BindError code msg \<Rightarrow> findAvailablePort_from bind s (p + 1)))
      else None)"
  by pat_completeness auto
termination
  by (relation "measure (\<lambda>(bind, s, p). nat (maxProxyPort s + 1 - p))") auto

declare findAvailablePort_from.simps [simp del]

definition findAvailablePort :: "udp_bind \<Rightarrow> service \<Rightarrow> int option" where
  "findAvailablePort bind s = findAvailablePort_from bind s (minProxyPort s)"

text \<open>
  \<^verbatim>\<open>src/unnamed/part_000\<close>, the same service on Node's \<^verbatim>\<open>dgram\<close>: the error
  listener of the test socket resolves the promise when the code is
  \<^verbatim>\<open>EADDRINUSE\<close> and rejects it otherwise, and after the promise resolves the loop
  body returns the port.
\<close>

function findAvailablePort_node_from :: "udp_bind \<Rightarrow> service \<Rightarrow> int \<Rightarrow> int option" where
  "findAvailablePort_node_from bind s p =
     (if p \<le> maxProxyPort s then
        (if has (activeProxies s) p then findAvailablePort_node_from bind s (p + 1)
         else
           (case bind p of
              Bound \<Rightarrow> Some p
            | BindError code msg \<Rightarrow>
                if code = ''EADDRINUSE'' then Some p
                else findAvailablePort_node_from bind s (p + 1)))
      else None)"
  by pat_completeness auto
termination
  by (relation "measure (\<lambda>(bind, s, p). nat (maxProxyPort s + 1 - p))") auto

declare findAvailablePort_node_from.simps [simp del]

definition findAvailablePort_node :: "udp_bind \<Rightarrow> service \<Rightarrow> int option" where
  "findAvailablePort_node bind s = findAvailablePort_node_from bind s (minProxyPort s)"

text \<open>
  What the specification asks of the allocator, in its words: the first candidate of the
  range, in ascending order, that is not registered and whose bind succeeds.
\<close>

definition first_free_port :: "udp_bind \<Rightarrow> service \<Rightarrow> int option" where
  "first_free_port bind s =
     List.find (\<lambda>p. \<not> has (activeProxies s) p \<and> bind p = Bound)
       [minProxyPort s..maxProxyPort s]"

subsection \<open>The session registry\<close>

text \<open>
  \<open>createProxy\<close> takes two bind outcomes: \<open>probe\<close> for the test sockets of the
  allocator and \<open>bind\<close> for the session's own socket, which is bound afterwards. The
  function is \<^verbatim>\<open>async\<close>; the model runs it in one step.
\<close>

definition createProxy ::
  "udp_bind \<Rightarrow> udp_bind \<Rightarrow> jsval \<Rightarrow> jsval \<Rightarrow> service \<Rightarrow> response \<times> service" where
  "createProxy probe bind proxyHostAddress proxyHostPort s =
     (if \<not> truthy proxyHostAddress \<or> \<not> is_number proxyHostPort then
        (reply ''error'' (Some ''create'') (Text ''Invalid proxyHostAddress or proxyHostPort.''), s)
      else
        (case findAvailablePort probe s of
           None \<Rightarrow> (reply ''error'' (Some ''create'') (Text ''No available proxy ports.''), s)
         | Some availablePort \<Rightarrow>
             (case bind availablePort of
                BindError code msg \<Rightarrow> (reply ''error'' (Some ''create'') (Text msg), s)
              | Bound \<Rightarrow>
                  ((reply ''success'' (Some ''create'')
                      (Template ''Proxy created on port '' (JNum availablePort) []))
                     \<lparr>proxyPort := Some availablePort\<rparr>,
                   s\<lparr>activeProxies :=
                       AList.update availablePort
                         \<lparr>proxySocket = availablePort,
                          proxyHost = \<lparr>address = proxyHostAddress, port = proxyHostPort\<rparr>\<rparr>
                         (activeProxies s),
                     open_sockets := availablePort # open_sockets s\<rparr>))))"

fun delete :: "(int \<times> ActiveProxy) list \<Rightarrow> jsval \<Rightarrow> (int \<times> ActiveProxy) list" where
  "delete m (JNum k) = AList.delete k m"
| "delete m _ = m"

definition stopProxy :: "jsval \<Rightarrow> service \<Rightarrow> response \<times> service" where
  "stopProxy key s =
     (case get (activeProxies s) key of
        None \<Rightarrow> (reply ''error'' (Some ''stop'') (Text ''Proxy not found.''), s)
      | Some proxy \<Rightarrow>
          (reply ''success'' (Some ''stop'') (Template ''Proxy on port '' key '' stopped.''),
           s\<lparr>open_sockets := removeAll (proxySocket proxy) (open_sockets s),
             activeProxies := delete (activeProxies s) key\<rparr>))"

definition listProxies :: "service \<Rightarrow> response" where
  "listProxies s =
     \<lparr>status = ''success'', action = Some ''list'', message = None, proxyPort = None,
      proxies = Some (map (\<lambda>(p, proxy). (p, proxyHost proxy)) (activeProxies s))\<rparr>"

definition shutdown :: "service \<Rightarrow> service" where
  "shutdown s =
     fold (\<lambda>(p, proxy) s'.
            s'\<lparr>open_sockets := removeAll (proxySocket proxy) (open_sockets s'),
               activeProxies := AList.delete p (activeProxies s')\<rparr>)
       (activeProxies s) s"

subsection \<open>The relay session\<close>

text \<open>
  The two callbacks that \<open>createProxy\<close> installs on the session's socket, for the
  session bound to \<open>availablePort\<close> with the proxy host \<open>host\<close>. The data callback
  gets the datagram and its sender's port and address; it yields the calls it makes
  (\<^verbatim>\<open>socket.send(data, port, address)\<close>, \<^verbatim>\<open>console.warn\<close> with the port and the
  error's message), or the error it lets escape.
\<close>

datatype effect = Send buffer jsval jsval | Warn int string

definition socket_data ::
  "endpoint \<Rightarrow> int \<Rightarrow> buffer \<Rightarrow> int \<Rightarrow> jsstring \<Rightarrow> error + effect list" where
  "socket_data host availablePort buf sender_port sender_address =
     (let isFromProxyHost =
            (JStr sender_address = address host \<and> JNum sender_port = port host)
      in if isFromProxyHost then
           (case decodeProxyMessage buf of
              Inl (Error msg) \<Rightarrow> Inr [Warn availablePort msg]
            | Inr m \<Rightarrow> Inr [Send (payload m) (JNum (targetPort m)) (JStr (targetHost m))])
         else
           (case encodeProxyMessage sender_address sender_port buf of
              Inl e \<Rightarrow> Inl e
            | Inr encodedMsg \<Rightarrow> Inr [Send encodedMsg (port host) (address host)]))"

definition socket_error :: "int \<Rightarrow> service \<Rightarrow> service" where
  "socket_error availablePort s =
     s\<lparr>open_sockets := removeAll availablePort (open_sockets s),
       activeProxies := AList.delete availablePort (activeProxies s)\<rparr>"

subsection \<open>The control channel\<close>

text \<open>
  One WebSocket connection: \<open>authTimeout\<close> is the pending timer with its delay in
  milliseconds, \<open>sent\<close> the replies in the order of \<^verbatim>\<open>ws.send\<close>, \<open>closed\<close> the code
  and reason of \<^verbatim>\<open>ws.close\<close>. A message is what \<^verbatim>\<open>JSON.parse\<close> makes of it: a
  syntax error with its text, or a value. The runtime delivers no message to a closed
  connection, and a timer that was cleared does not fire.
\<close>

record connection =
  authenticated :: bool
  authTimeout :: "nat option"
  sent :: "response list"
  closed :: "(nat \<times> string) option"

datatype parse_result = SyntaxError string | Parsed jsval

definition ws_send :: "connection \<Rightarrow> response \<Rightarrow> connection" where
  "ws_send c r = c\<lparr>sent := sent c @ [r]\<rparr>"

definition ws_close :: "connection \<Rightarrow> nat \<Rightarrow> string \<Rightarrow> connection" where
  "ws_close c code reason =
     (if closed c = None then c\<lparr>closed := Some (code, reason)\<rparr> else c)"

definition handleWebSocketOpen :: connection where
  "handleWebSocketOpen =
     \<lparr>authenticated = False, authTimeout = Some 5000, sent = [], closed = None\<rparr>"

definition authTimeout_callback :: "connection \<Rightarrow> connection" where
  "authTimeout_callback c =
     (if \<not> authenticated c
      then ws_close (c\<lparr>authTimeout := None\<rparr>) 4001 ''Authentication required''
      else c\<lparr>authTimeout := None\<rparr>)"

definition handleWebSocketClose :: "connection \<Rightarrow> connection" where
  "handleWebSocketClose c = c\<lparr>authTimeout := None\<rparr>"

definition property :: "jsval \<Rightarrow> string \<Rightarrow> jsval" where
  "property data k = (case get_prop data k of Inl e \<Rightarrow> JUndefined | Inr v \<Rightarrow> v)"

text \<open>
  \<open>handleAuthenticatedMessage\<close> is \<^verbatim>\<open>async\<close> and its caller does not await it: an
  error thrown in it (reading \<^verbatim>\<open>action\<close> of \<^verbatim>\<open>null\<close>) rejects its promise, no
  handler receives the rejection, and Bun ends the process on it. The model returns that
  error as \<open>Inl\<close>. Every error thrown in \<open>handleWebSocketMessage\<close> itself is caught
  there, so \<open>Inl\<close> as a result of the handler, and of a run of messages, is this
  unhandled rejection and nothing else.
\<close>

definition handleAuthenticatedMessage ::
  "udp_bind \<Rightarrow> udp_bind \<Rightarrow> service \<Rightarrow> connection \<Rightarrow> jsval \<Rightarrow> error + service \<times> connection"
  where
  "handleAuthenticatedMessage probe bind s c data =
     (case get_prop data ''action'' of
        Inl e \<Rightarrow> Inl e
      | Inr act \<Rightarrow>
          if act = JStr (js ''list'') then Inr (s, ws_send c (listProxies s))
          else if act = JStr (js ''create'') then
            (case createProxy probe bind (property data ''proxyHostAddress'')
                    (property data ''proxyHostPort'') s of
               (r, s') \<Rightarrow> Inr (s', ws_send c r))
          else if act = JStr (js ''stop'') then
            (case stopProxy (property data ''proxyPort'') s of
               (r, s') \<Rightarrow> Inr (s', ws_send c r))
          else
            Inr (s, ws_send c
                  \<lparr>status = ''error'', action = None, message = Some (Text ''Unknown action.''),
                   proxyPort = None, proxies = None\<rparr>))"

definition handleWebSocketMessage ::
  "udp_bind \<Rightarrow> udp_bind \<Rightarrow> service \<Rightarrow> connection \<Rightarrow> parse_result \<Rightarrow>
   error + service \<times> connection"
  where
  "handleWebSocketMessage probe bind s c m =
     (let malformed =
            ws_close
              (ws_send c (reply ''error'' None (Text ''Malformed auth message'')))
              4002 ''Malformed auth message''
      in case m of
           SyntaxError msg \<Rightarrow>
             if \<not> authenticated c then Inr (s, malformed)
             else Inr (s, ws_send c (reply ''error'' None (Text msg)))
         | Parsed data \<Rightarrow>
             if \<not> authenticated c then
               (case get_prop data ''action'' of
                  Inl e \<Rightarrow> Inr (s, malformed)
                | Inr act \<Rightarrow>
                    if act = JStr (js ''auth'') \<and> property data ''token'' = JStr (accessToken s)
                    then
                      Inr (s, ws_send (c\<lparr>authenticated := True, authTimeout := None\<rparr>)
                                (reply ''success'' None (Text ''Authenticated'')))
                    else
                      Inr (s, ws_close
                                (ws_send c (reply ''error'' None (Text ''Invalid token'')))
                                4003 ''Invalid token''))
             else handleAuthenticatedMessage probe bind s c data)"

text \<open>
  The messages of one connection in the order they arrive. The run ends where the
  connection is closed, and where a message leaves the process with the unhandled
  rejection.
\<close>

fun ws_messages ::
  "udp_bind \<Rightarrow> udp_bind \<Rightarrow> service \<times> connection \<Rightarrow> parse_result list \<Rightarrow>
   error + service \<times> connection"
  where
  "ws_messages probe bind sc [] = Inr sc"
| "ws_messages probe bind (s, c) (m # ms) =
     (if closed c = None then
        (case handleWebSocketMessage probe bind s c m of
           Inl e \<Rightarrow> Inl e
         | Inr sc' \<Rightarrow> ws_messages probe bind sc' ms)
      else Inr (s, c))"

text \<open>
  The messages of which \<^verbatim>\<open>data.action\<close> can be read: every message but the one that
  parses to \<^verbatim>\<open>null\<close>. (\<^verbatim>\<open>JSON.parse\<close> never yields \<^verbatim>\<open>undefined\<close>.)
\<close>

fun action_readable :: "parse_result \<Rightarrow> bool" where
  "action_readable (SyntaxError msg) = True"
| "action_readable (Parsed data) = (\<not> isl (get_prop data ''action''))"

subsection \<open>Runs of the registry\<close>

text \<open>
  Everything that changes the registry after the constructor has run: the three commands
  of the control channel with the arguments they pass, a socket error of a session, and
  the shutdown. In \<open>Create\<close> the two outcomes of binding are those the operating system
  gives at that moment.
\<close>

datatype operation =
    Create udp_bind udp_bind jsval jsval
  | Stop jsval
  | List
  | SocketError int
  | Shutdown

fun apply_operation :: "service \<Rightarrow> operation \<Rightarrow> service" where
  "apply_operation s (Create probe bind a p) = snd (createProxy probe bind a p s)"
| "apply_operation s (Stop key) = snd (stopProxy key s)"
| "apply_operation s List = s"
| "apply_operation s (SocketError p) = socket_error p s"
| "apply_operation s Shutdown = shutdown s"

definition registry_in_range :: "service \<Rightarrow> bool" where
  "registry_in_range s =
     list_all (\<lambda>(p, proxy). minProxyPort s \<le> p \<and> p \<le> maxProxyPort s) (activeProxies s)"

subsection \<open>A service to evaluate on\<close>

text \<open>The service with the port range 10000..10002 and no session yet.\<close>

definition example_service :: service where
  "example_service = ProxBoardService 10000 10002 (js ''token'')"

section \<open>Proofs\<close>

subsection \<open>The UTF-8 decoder inverts the encoder on scalar values\<close>

lemma low_bits: "b < m \<Longrightarrow> (k * m + b) mod m = (b::nat)"
  by simp

lemma continuation_bits: "b < 64 \<Longrightarrow> (128 + b) mod 64 = (b::nat)"
  using low_bits [of b 64 2] by simp

lemma lead2_bits: "a < 32 \<Longrightarrow> (192 + a) mod 32 = (a::nat)"
  using low_bits [of a 32 6] by simp

lemma lead3_bits: "a < 16 \<Longrightarrow> (224 + a) mod 16 = (a::nat)"
  using low_bits [of a 16 14] by simp

lemma lead4_bits: "a < 8 \<Longrightarrow> (240 + a) mod 8 = (a::nat)"
  using low_bits [of a 8 30] by simp

lemma utf8_step_continue:
  assumes "bytes_needed st = Suc (Suc n)" "lower_boundary st \<le> 128 + b" "128 + b \<le> upper_boundary st" "b < 64"
  shows "utf8_step st (128 + b) =
         (st\<lparr>code_point := code_point st * 64 + b, bytes_needed := Suc n,
             lower_boundary := 0x80, upper_boundary := 0xBF\<rparr>, [])"
  using assms by (simp add: utf8_step_def continuation_bits)

lemma utf8_step_last:
  assumes "bytes_needed st = Suc 0" "lower_boundary st \<le> 128 + b" "128 + b \<le> upper_boundary st" "b < 64"
  shows "utf8_step st (128 + b) = (utf8_initial, [code_point st * 64 + b])"
  using assms by (simp add: utf8_step_def continuation_bits)

lemma utf8_step_initial: "utf8_step utf8_initial b = utf8_lead b"
  by (simp add: utf8_step_def utf8_initial_def)

lemma utf8_run_initial_Nil: "utf8_run utf8_initial [] = []"
  by (simp add: utf8_initial_def)

lemma bytes_needed_initial: "bytes_needed utf8_initial = 0"
  by (simp add: utf8_initial_def)

lemma utf8_run_1:
  assumes "cp < 0x80"
  shows "utf8_run utf8_initial (utf8_of_scalar cp @ bs) = cp # utf8_run utf8_initial bs"
  using assms by (simp add: utf8_of_scalar_def utf8_step_initial utf8_lead_def)

lemma utf8_run_2:
  assumes "0x80 \<le> cp" "cp < 0x800"
  shows "utf8_run utf8_initial (utf8_of_scalar cp @ bs) = cp # utf8_run utf8_initial bs"
proof -
  define a where "a = cp div 64"
  define b where "b = cp mod 64"
  have cp: "cp = a * 64 + b" by (simp add: a_def b_def)
  have a: "2 \<le> a" "a < 32" using assms by (simp_all add: a_def)
  have b: "b < 64" by (simp add: b_def)
  have e: "utf8_of_scalar cp = [192 + a, 128 + b]"
    using assms by (simp add: utf8_of_scalar_def a_def b_def)
  define st where "st = utf8_initial\<lparr>code_point := a, bytes_needed := 1\<rparr>"
  have l: "utf8_lead (192 + a) = (st, [])"
    using a by (simp add: utf8_lead_def lead2_bits st_def)
  have s: "utf8_step st (128 + b) = (utf8_initial, [cp])"
    using utf8_step_last [of st b] b by (simp add: st_def utf8_initial_def cp)
  show ?thesis
    by (simp add: e utf8_step_initial l s)
qed

lemma div_4096: "(n::nat) div 4096 = n div 64 div 64"
  by (simp add: div_mult2_eq [symmetric])

lemma div_262144: "(n::nat) div 262144 = n div 64 div 64 div 64"
  by (simp add: div_mult2_eq [symmetric])

lemma utf8_run_3:
  assumes "0x800 \<le> cp" "cp < 0x10000" "\<not> (0xD800 \<le> cp \<and> cp \<le> 0xDFFF)"
  shows "utf8_run utf8_initial (utf8_of_scalar cp @ bs) = cp # utf8_run utf8_initial bs"
proof -
  define q where "q = cp div 64"
  define a where "a = q div 64"
  define b where "b = q mod 64"
  define c where "c = cp mod 64"
  have q: "cp = q * 64 + c" by (simp add: q_def c_def)
  have qa: "q = a * 64 + b" by (simp add: a_def b_def)
  have cp: "cp = (a * 64 + b) * 64 + c" using q qa by simp
  have qr: "32 \<le> q" "q < 1024" "\<not> (864 \<le> q \<and> q < 896)"
    using assms by (simp_all add: q_def less_mult_imp_div_less) linarith
  have a: "a < 16" using qr by (simp add: a_def less_mult_imp_div_less)
  have b: "b < 64" by (simp add: b_def)
  have c: "c < 64" by (simp add: c_def)
  have lo: "a = 0 \<Longrightarrow> 32 \<le> b" using qr qa by simp
  have hi: "a = 13 \<Longrightarrow> b < 32" using qr qa b by simp
  have e: "utf8_of_scalar cp = [224 + a, 128 + b, 128 + c]"
    using assms by (simp add: utf8_of_scalar_def a_def b_def c_def q_def div_4096)
  define st where "st = utf8_initial\<lparr>code_point := a, bytes_needed := 2,
           lower_boundary := (if a = 0 then 0xA0 else 0x80),
           upper_boundary := (if a = 13 then 0x9F else 0xBF)\<rparr>"
  define st' where "st' = st\<lparr>code_point := a * 64 + b, bytes_needed := Suc 0,
             lower_boundary := 0x80, upper_boundary := 0xBF\<rparr>"
  have l: "utf8_lead (224 + a) = (st, [])"
    using a by (simp add: utf8_lead_def lead3_bits st_def)
  have s1: "utf8_step st (128 + b) = (st', [])"
    using b lo hi
    by (cases "a = 0"; cases "a = 13")
       (simp_all add: utf8_step_def st_def st'_def utf8_initial_def continuation_bits)
  have s2: "utf8_step st' (128 + c) = (utf8_initial, [cp])"
    using utf8_step_last [of st' c] c by (simp add: st_def st'_def utf8_initial_def cp)
  show ?thesis
    by (simp add: e utf8_step_initial l s1 s2)
qed

lemma utf8_run_4:
  assumes "0x10000 \<le> cp" "cp < 0x110000"
  shows "utf8_run utf8_initial (utf8_of_scalar cp @ bs) = cp # utf8_run utf8_initial bs"
proof -
  define q where "q = cp div 64"
  define r where "r = q div 64"
  define a where "a = r div 64"
  define b where "b = r mod 64"
  define c where "c = q mod 64"
  define d where "d = cp mod 64"
  have q: "cp = q * 64 + d" by (simp add: q_def d_def)
  have qr: "q = r * 64 + c" by (simp add: r_def c_def)
  have ra: "r = a * 64 + b" by (simp add: a_def b_def)
  have cp: "cp = ((a * 64 + b) * 64 + c) * 64 + d" using q qr ra by simp
  have qb: "1024 \<le> q" "q < 17408"
    using assms by (simp_all add: q_def less_mult_imp_div_less)
  have rb: "16 \<le> r" "r < 272"
    using qb by (simp_all add: r_def less_mult_imp_div_less)
  have a: "a < 5" using rb by (simp add: a_def less_mult_imp_div_less)
  have b: "b < 64" by (simp add: b_def)
  have c: "c < 64" by (simp add: c_def)
  have d: "d < 64" by (simp add: d_def)
  have lo: "a = 0 \<Longrightarrow> 16 \<le> b" using rb ra by simp
  have hi: "a = 4 \<Longrightarrow> b < 16" using rb ra by simp
  have e: "utf8_of_scalar cp = [240 + a, 128 + b, 128 + c, 128 + d]"
    using assms
    by (simp add: utf8_of_scalar_def a_def b_def c_def d_def q_def r_def div_4096 div_262144)
  define st where "st = utf8_initial\<lparr>code_point := a, bytes_needed := 3,
           lower_boundary := (if a = 0 then 0x90 else 0x80),
           upper_boundary := (if a = 4 then 0x8F else 0xBF)\<rparr>"
  define st' where "st' = st\<lparr>code_point := a * 64 + b, bytes_needed := Suc (Suc 0),
             lower_boundary := 0x80, upper_boundary := 0xBF\<rparr>"
  define st'' where "st'' = st'\<lparr>code_point := (a * 64 + b) * 64 + c, bytes_needed := Suc 0,
             lower_boundary := 0x80, upper_boundary := 0xBF\<rparr>"
  have l: "utf8_lead (240 + a) = (st, [])"
    using a by (simp add: utf8_lead_def lead4_bits st_def)
  have s1: "utf8_step st (128 + b) = (st', [])"
    using b lo hi
    by (cases "a = 0"; cases "a = 4")
       (simp_all add: utf8_step_def st_def st'_def utf8_initial_def continuation_bits)
  have s2: "utf8_step st' (128 + c) = (st'', [])"
    using c by (simp add: utf8_step_def st_def st'_def st''_def utf8_initial_def continuation_bits)
  have s3: "utf8_step st'' (128 + d) = (utf8_initial, [cp])"
    using utf8_step_last [of st'' d] d by (simp add: st_def st'_def st''_def utf8_initial_def cp)
  show ?thesis
    by (simp add: e utf8_step_initial l s1 s2 s3)
qed

lemma utf8_run_scalar:
  assumes "is_scalar cp"
  shows "utf8_run utf8_initial (utf8_of_scalar cp @ bs) = cp # utf8_run utf8_initial bs"
proof -
  consider "cp < 0x80" | "0x80 \<le> cp" "cp < 0x800" | "0x800 \<le> cp" "cp < 0x10000" | "0x10000 \<le> cp"
    by linarith
  then show ?thesis
  proof cases
    case 1 then show ?thesis by (rule utf8_run_1)
  next
    case 2 then show ?thesis by (rule utf8_run_2)
  next
    case 3 with assms show ?thesis by (intro utf8_run_3) (simp_all add: is_scalar_def)
  next
    case 4 with assms show ?thesis by (intro utf8_run_4) (simp_all add: is_scalar_def)
  qed
qed

lemma utf8_run_scalars:
  "list_all is_scalar cps \<Longrightarrow> utf8_run utf8_initial (concat (map utf8_of_scalar cps)) = cps"
  by (induction cps) (simp_all add: utf8_run_scalar bytes_needed_initial)

subsection \<open>Code units and scalar values\<close>

lemma surrogate_pair_scalar:
  assumes "is_high_surrogate c" "is_low_surrogate d"
  shows "is_scalar (0x10000 + (c - 0xD800) * 0x400 + (d - 0xDC00))"
proof -
  define x where "x = c - 0xD800"
  define y where "y = d - 0xDC00"
  have "x \<le> 1023" "y \<le> 1023"
    using assms by (auto simp: x_def y_def is_high_surrogate_def is_low_surrogate_def)
  then have "x * 1024 + y \<le> 1023 * 1024 + 1023"
    by (intro add_mono mult_right_mono) simp_all
  then show ?thesis
    by (simp add: is_scalar_def x_def [symmetric] y_def [symmetric])
qed

lemma surrogate_pair_utf16:
  assumes "is_high_surrogate c" "is_low_surrogate d"
  shows "utf16_of_scalar (0x10000 + (c - 0xD800) * 0x400 + (d - 0xDC00)) = [c, d]"
proof -
  define x where "x = c - 0xD800"
  define y where "y = d - 0xDC00"
  have c: "c = 0xD800 + x" and d: "d = 0xDC00 + y" and y: "y < 1024"
    using assms by (auto simp: x_def y_def is_high_surrogate_def is_low_surrogate_def)
  show ?thesis
    using y by (simp add: utf16_of_scalar_def c d)
qed

lemma unit_scalar:
  "c < 65536 \<Longrightarrow> \<not> is_high_surrogate c \<Longrightarrow> \<not> is_low_surrogate c \<Longrightarrow> is_scalar c"
  by (auto simp: is_scalar_def is_high_surrogate_def is_low_surrogate_def)

lemma replacement_scalar: "is_scalar 0xFFFD"
  by (simp add: is_scalar_def)

lemma scalar_values_scalar:
  "list_all (\<lambda>u. u < 65536) us \<Longrightarrow> list_all is_scalar (scalar_values us)"
  by (induction us rule: scalar_values.induct)
     (simp_all add: surrogate_pair_scalar unit_scalar replacement_scalar)

lemma utf16_of_unit: "c < 65536 \<Longrightarrow> utf16_of_scalar c = [c]"
  by (simp add: utf16_of_scalar_def)

lemma utf16_scalar_values:
  "isWellFormed us \<Longrightarrow> list_all (\<lambda>u. u < 65536) us \<Longrightarrow>
   concat (map utf16_of_scalar (scalar_values us)) = us"
  by (induction us rule: scalar_values.induct)
     (simp_all add: surrogate_pair_utf16 utf16_of_unit)

lemma strip_bom_scalar_values:
  "us = [] \<or> hd us \<noteq> 0xFEFF \<Longrightarrow> strip_bom (scalar_values us) = scalar_values us"
  by (induction us rule: scalar_values.induct)
     (auto simp: is_high_surrogate_def is_low_surrogate_def)

lemma utf8_of_scalar_bytes: "is_scalar cp \<Longrightarrow> list_all (\<lambda>b. b < 256) (utf8_of_scalar cp)"
proof -
  assume s: "is_scalar cp"
  have q: "cp div 64 < 32" if "cp < 0x800" using that by (simp add: less_mult_imp_div_less)
  have r: "cp div 64 div 64 < 16" if "cp < 0x10000" using that by (simp add: less_mult_imp_div_less)
  have t: "cp div 64 div 64 div 64 < 8" using s by (simp add: is_scalar_def less_mult_imp_div_less)
  have m: "n mod 64 < 64" for n :: nat by simp
  show ?thesis
    using q r t m [of cp] m [of "cp div 64"] m [of "cp div 64 div 64"]
    by (auto simp: utf8_of_scalar_def div_4096 div_262144)
qed

lemma bytes_of_nat_unat:
  "list_all (\<lambda>b. b < 256) bs \<Longrightarrow> map unat (map of_nat bs :: byte list) = bs"
  by (induction bs) (simp_all add: unat_of_nat)

lemma units_of_nat_unat: "map of_nat (map unat s) = (s :: jsstring)"
  by (induction s) simp_all

lemma units_bounded: "list_all (\<lambda>u. u < 65536) (map unat (s :: jsstring))"
proof (induction s)
  case Nil show ?case by simp
next
  case (Cons w s)
  have "unat w < 2 ^ LENGTH(16)" by (rule unsigned_less)
  with Cons show ?case by simp
qed

lemma concat_bytes:
  "list_all is_scalar cps \<Longrightarrow> list_all (\<lambda>b. b < 256) (concat (map utf8_of_scalar cps))"
  by (induction cps) (simp_all add: utf8_of_scalar_bytes)

lemma text_round_trip:
  assumes "well_formed s" "\<not> starts_with_bom s"
  shows "TextDecoder_decode (TextEncoder_encode s) = s"
proof -
  let ?us = "map unat s"
  let ?cps = "scalar_values ?us"
  have sc: "list_all is_scalar ?cps"
    by (rule scalar_values_scalar) (rule units_bounded)
  have enc: "map unat (TextEncoder_encode s) = concat (map utf8_of_scalar ?cps)"
    unfolding TextEncoder_encode_def by (rule bytes_of_nat_unat) (rule concat_bytes [OF sc])
  have run: "utf8_run utf8_initial (map unat (TextEncoder_encode s)) = ?cps"
    by (simp only: enc utf8_run_scalars [OF sc])
  have nb: "?us = [] \<or> hd ?us \<noteq> 0xFEFF"
  proof (cases s)
    case Nil then show ?thesis by simp
  next
    case (Cons w ws)
    have "w = 0xFEFF" if "unat w = 0xFEFF"
    proof -
      have "of_nat (unat w) = (of_nat 0xFEFF :: 16 word)" using that by (rule arg_cong)
      then show ?thesis by simp
    qed
    with assms(2) Cons show ?thesis by (auto simp: starts_with_bom_def)
  qed
  have "TextDecoder_decode (TextEncoder_encode s) = map of_nat (concat (map utf16_of_scalar ?cps))"
    by (simp only: TextDecoder_decode_def run strip_bom_scalar_values [OF nb])
  also have "\<dots> = map of_nat ?us"
    using assms(1) by (simp only: well_formed_def utf16_scalar_values [OF _ units_bounded])
  finally show ?thesis by (simp only: units_of_nat_unat)
qed

subsection \<open>The buffer that the encoder fills\<close>

lemma uint8_set_mid:
  "length zs = length src \<Longrightarrow> n = length xs \<Longrightarrow> uint8_set (xs @ zs @ ys) src n = xs @ src @ ys"
  by (simp add: uint8_set_def)

lemma setUint16_mid:
  "n = length xs \<Longrightarrow> setUint16 (xs @ a # b # ys) n p = xs @ of_int (p div 256) # of_int p # ys"
  by (simp add: setUint16_def list_update_append)

lemma zero_buffer_split:
  "replicate (1 + h + 2 + k) (0::byte) = 0 # replicate h 0 @ 0 # 0 # replicate k 0"
proof -
  have "replicate (1 + h + 2 + k) (0::byte)
        = replicate 1 0 @ replicate h 0 @ replicate 2 0 @ replicate k 0"
    by (simp only: replicate_add append_assoc)
  moreover have "replicate 1 (0::byte) = [0]" by simp
  moreover have "replicate 2 (0::byte) = [0, 0]" by (simp add: numeral_2_eq_2)
  ultimately show ?thesis by simp
qed

lemma encode_buffer_layout:
  fixes hb d :: buffer
  shows "uint8_set (setUint16 (uint8_set (setUint8 (replicate (1 + length hb + 2 + length d) 0) 0 n) hb 1)
            (1 + length hb) p) d (1 + length hb + 2)
         = of_int n # hb @ [of_int (p div 256), of_int p] @ d"
proof -
  let ?z = "replicate (length d) (0::byte)"
  have b1: "setUint8 (replicate (1 + length hb + 2 + length d) 0) 0 n
            = [of_int n] @ replicate (length hb) 0 @ (0 # 0 # ?z)"
    by (simp only: zero_buffer_split) (simp add: setUint8_def)
  have b2: "uint8_set ([of_int n] @ replicate (length hb) 0 @ (0 # 0 # ?z)) hb 1
            = [of_int n] @ hb @ (0 # 0 # ?z)"
    by (rule uint8_set_mid) simp_all
  have b3: "setUint16 ([of_int n] @ hb @ (0 # 0 # ?z)) (1 + length hb) p
            = (of_int n # hb) @ of_int (p div 256) # of_int p # ?z"
    using setUint16_mid [where n = "1 + length hb" and xs = "of_int n # hb" and p = p and a = 0 and b = 0 and ys = ?z] by simp
  have b4: "uint8_set ((of_int n # hb) @ of_int (p div 256) # of_int p # ?z) d (1 + length hb + 2)
            = (of_int n # hb @ [of_int (p div 256), of_int p]) @ d @ []"
    using uint8_set_mid [where zs = ?z and src = d and n = "1 + length hb + 2"
        and xs = "of_int n # hb @ [of_int (p div 256), of_int p]" and ys = "[]"]
    by simp
  show ?thesis by (simp only: b1 b2 b3 b4) simp
qed

lemma encodeProxyMessage_ok:
  assumes "length (TextEncoder_encode h) \<le> 255" "1 \<le> p" "p \<le> 65535"
  shows "encodeProxyMessage h p d =
         Inr (of_nat (length (TextEncoder_encode h)) # TextEncoder_encode h
              @ [of_int (p div 256), of_int p] @ d)"
proof -
  from assms have c1: "\<not> 255 < length (TextEncoder_encode h)" by simp
  from assms have c2: "\<not> (p < 1 \<or> 65535 < p)" by simp
  show ?thesis
    unfolding encodeProxyMessage_def Let_def
    by (simp only: c1 c2 if_False encode_buffer_layout of_int_of_nat_eq)
qed

lemma uint_byte_of_nat: "n \<le> 255 \<Longrightarrow> uint (of_nat n :: byte) = int n"
  by (simp add: unsigned_of_nat take_bit_nat_eq_self)

lemma uint_byte_bounds: "0 \<le> uint (b :: byte) \<and> uint b \<le> 255"
proof -
  have "uint b < 2 ^ LENGTH(8)" by (rule unsigned_less)
  then show ?thesis by simp
qed

lemma port_bytes:
  assumes "1 \<le> p" "p \<le> 65535"
  shows "uint (of_int (p div 256) :: byte) * 256 + uint (of_int p :: byte) = p"
proof -
  have "0 \<le> p div 256" "p div 256 < 256" using assms by simp_all
  then have hi: "uint (of_int (p div 256) :: byte) = p div 256"
    by (simp add: uint_word_of_int)
  have lo: "uint (of_int p :: byte) = p mod 256"
    by (simp add: uint_word_of_int)
  show ?thesis by (simp add: hi lo)
qed

lemma getUint16_range: "0 \<le> getUint16 buf i \<and> getUint16 buf i \<le> 65535"
  using uint_byte_bounds [of "buf ! i"] uint_byte_bounds [of "buf ! Suc i"]
  by (simp add: getUint16_def)

lemma frame_fields:
  fixes hb d :: buffer and x y :: byte
  assumes "length hb \<le> 255"
  defines "frame \<equiv> of_nat (length hb) # hb @ [x, y] @ d"
  shows "length frame = 1 + length hb + 2 + length d"
    and "getUint8 frame 0 = int (length hb)"
    and "slice frame 1 (1 + length hb) = hb"
    and "getUint16 frame (1 + length hb) = uint x * 256 + uint y"
    and "drop (1 + length hb + 2) frame = d"
  using assms
  by (simp_all add: frame_def getUint8_def getUint16_def slice_def uint_byte_of_nat nth_append)

lemma decode_of_fields:
  assumes "4 \<le> length buf" "getUint8 buf 0 = int n" "1 + n + 2 \<le> length buf"
  shows "decodeProxyMessage buf =
         (let host = TextDecoder_decode (slice buf 1 (1 + n)); p = getUint16 buf (1 + n)
          in if host = [] \<or> p < 1 \<or> 65535 < p
             then Inl (Error ''Malformed message: Invalid host or port.'')
             else Inr \<lparr>targetHost = host, targetPort = p,
                       payload = drop (1 + n + 2) buf\<rparr>)"
  using assms by (simp add: decodeProxyMessage_def Let_def)

lemma TextEncoder_encode_Nil: "TextEncoder_encode [] = []"
  by (simp add: TextEncoder_encode_def)

subsection \<open>Values of the codec on concrete hosts\<close>

lemma example_host_bytes: "TextEncoder_encode (js ''8.8.8.8'') = [56, 46, 56, 46, 56, 46, 56]"
  by (simp add: TextEncoder_encode_def js_def is_high_surrogate_def is_low_surrogate_def
        utf8_of_scalar_def)

lemma example_host_decoded: "TextDecoder_decode [56, 46, 56, 46, 56, 46, 56] = js ''8.8.8.8''"
  by (simp add: TextDecoder_decode_def js_def utf8_step_def utf8_lead_def utf8_initial_def
        utf16_of_scalar_def)

lemma example_host_well_formed: "well_formed (js ''8.8.8.8'') \<and> \<not> starts_with_bom (js ''8.8.8.8'')"
  by (simp add: well_formed_def starts_with_bom_def js_def is_high_surrogate_def
        is_low_surrogate_def)

lemma example_hosts_differ: "js ''8.8.8.8'' \<noteq> js ''127.0.0.1''"
  by (simp add: js_def)

lemma example_address_nonempty: "js ''127.0.0.1'' \<noteq> []"
  by (simp add: js_def)

lemma lone_surrogate_bytes: "TextEncoder_encode [0xD800] = [0xEF, 0xBF, 0xBD]"
  by (simp add: TextEncoder_encode_def is_high_surrogate_def utf8_of_scalar_def)

lemma bom_bytes: "TextEncoder_encode [0xFEFF] = [0xEF, 0xBB, 0xBF]"
  by (simp add: TextEncoder_encode_def is_high_surrogate_def is_low_surrogate_def
        utf8_of_scalar_def)

lemma replacement_decoded: "TextDecoder_decode [0xEF, 0xBF, 0xBD] = [0xFFFD]"
  by (simp add: TextDecoder_decode_def utf8_step_def utf8_lead_def utf8_initial_def
        utf16_of_scalar_def)

lemma bom_decoded: "TextDecoder_decode [0xEF, 0xBB, 0xBF] = []"
  by (simp add: TextDecoder_decode_def utf8_step_def utf8_lead_def utf8_initial_def
        utf16_of_scalar_def)

subsection \<open>The frame codec\<close>

text \<open>
  C7. \<open>encodeProxyMessage\<close> fails when the UTF-8 encoding of the host is longer than
  255 bytes and when the port is outside 1..65535. On every other input it returns a
  buffer of 1 + hostnameLength + 2 + payload length bytes: the hostname length in one
  byte, the hostname bytes, the port in two bytes with the high byte first, then the
  payload. It is a function of its arguments alone.
\<close>

theorem C7_encode_bounds_and_layout:
  "(255 < length (TextEncoder_encode h) \<longrightarrow>
      encodeProxyMessage h p d = Inl (Error ''Hostname is too long (max 255 bytes).'')) \<and>
   (p < 1 \<or> 65535 < p \<longrightarrow> isl (encodeProxyMessage h p d)) \<and>
   (length (TextEncoder_encode h) \<le> 255 \<and> 1 \<le> p \<and> p \<le> 65535 \<longrightarrow>
      (\<exists>buf. encodeProxyMessage h p d = Inr buf \<and>
         length buf = 1 + length (TextEncoder_encode h) + 2 + length d \<and>
         getUint8 buf 0 = int (length (TextEncoder_encode h)) \<and>
         slice buf 1 (1 + length (TextEncoder_encode h)) = TextEncoder_encode h \<and>
         getUint16 buf (1 + length (TextEncoder_encode h)) = p \<and>
         drop (1 + length (TextEncoder_encode h) + 2) buf = d))"
proof (intro conjI impI)
  assume "255 < length (TextEncoder_encode h)"
  then show "encodeProxyMessage h p d = Inl (Error ''Hostname is too long (max 255 bytes).'')"
    by (simp add: encodeProxyMessage_def Let_def)
next
  assume "p < 1 \<or> 65535 < p"
  then show "isl (encodeProxyMessage h p d)"
    by (auto simp: encodeProxyMessage_def Let_def)
next
  let ?hb = "TextEncoder_encode h"
  let ?frame = "of_nat (length ?hb) # ?hb @ [of_int (p div 256), of_int p] @ d"
  assume a: "length ?hb \<le> 255 \<and> 1 \<le> p \<and> p \<le> 65535"
  then have e: "encodeProxyMessage h p d = Inr ?frame"
    by (intro encodeProxyMessage_ok) simp_all
  from a have len: "length ?hb \<le> 255" and p: "1 \<le> p" "p \<le> 65535" by simp_all
  note f = frame_fields [OF len, of "of_int (p div 256)" "of_int p" d]
  have "length ?frame = 1 + length ?hb + 2 + length d \<and>
        getUint8 ?frame 0 = int (length ?hb) \<and>
        slice ?frame 1 (1 + length ?hb) = ?hb \<and>
        getUint16 ?frame (1 + length ?hb) = p \<and>
        drop (1 + length ?hb + 2) ?frame = d"
    by (intro conjI) (rule f, rule f, rule f, simp only: f port_bytes [OF p], rule f)
  with e show "\<exists>buf. encodeProxyMessage h p d = Inr buf \<and>
         length buf = 1 + length ?hb + 2 + length d \<and>
         getUint8 buf 0 = int (length ?hb) \<and>
         slice buf 1 (1 + length ?hb) = ?hb \<and>
         getUint16 buf (1 + length ?hb) = p \<and>
         drop (1 + length ?hb + 2) buf = d"
    by blast
qed

theorem C7_encode_bounds_and_layout_witness:
  "encodeProxyMessage (js ''8.8.8.8'') 0 [1, 2, 3] =
     Inl (Error ''Target port must be between 1 and 65535.'') \<and>
   (\<exists>buf. encodeProxyMessage (js ''8.8.8.8'') 53 [1, 2, 3] = Inr buf \<and>
      length buf = 1 + 7 + 2 + 3 \<and> getUint8 buf 0 = 7 \<and>
      slice buf 1 (1 + 7) = [56, 46, 56, 46, 56, 46, 56] \<and> getUint16 buf (1 + 7) = 53 \<and>
      drop (1 + 7 + 2) buf = [1, 2, 3])"
proof
  show "encodeProxyMessage (js ''8.8.8.8'') 0 [1, 2, 3] =
     Inl (Error ''Target port must be between 1 and 65535.'')"
    by (simp add: encodeProxyMessage_def example_host_bytes Let_def)
  show "\<exists>buf. encodeProxyMessage (js ''8.8.8.8'') 53 [1, 2, 3] = Inr buf \<and>
      length buf = 1 + 7 + 2 + 3 \<and> getUint8 buf 0 = 7 \<and>
      slice buf 1 (1 + 7) = [56, 46, 56, 46, 56, 46, 56] \<and> getUint16 buf (1 + 7) = 53 \<and>
      drop (1 + 7 + 2) buf = [1, 2, 3]"
  proof -
    have l: "length ([56, 46, 56, 46, 56, 46, 56] :: buffer) = 7"
      "length ([1, 2, 3] :: buffer) = 3"
      by simp_all
    show ?thesis
      using C7_encode_bounds_and_layout [of "js ''8.8.8.8''" 53 "[1, 2, 3]"]
      by (simp only: example_host_bytes l) simp
  qed
qed

text \<open>
  C6. \<open>decodeProxyMessage\<close> fails exactly on a malformed input: fewer than 4 bytes, a
  declared hostname length whose header of 1 + hostnameLength + 2 bytes is longer than
  the buffer, a decoded hostname that is empty, or a decoded port outside 1..65535,
  which for the two bytes read means port 0. When it succeeds the payload is every byte
  after the header.
\<close>

theorem C6_decode_fails_exactly_when_malformed:
  "(let hostnameLength = nat (getUint8 buf 0);
        host = TextDecoder_decode (slice buf 1 (1 + hostnameLength));
        p = getUint16 buf (1 + hostnameLength)
    in (isl (decodeProxyMessage buf) \<longleftrightarrow>
          length buf < 4 \<or> length buf < 1 + hostnameLength + 2 \<or> host = [] \<or>
          p < 1 \<or> 65535 < p) \<and>
       ((p < 1 \<or> 65535 < p) \<longleftrightarrow> p = 0) \<and>
       (\<forall>m. decodeProxyMessage buf = Inr m \<longrightarrow>
          targetHost m = host \<and> targetPort m = p \<and>
          payload m = drop (1 + hostnameLength + 2) buf))"
proof -
  have r: "0 \<le> getUint16 buf i \<and> getUint16 buf i \<le> 65535" for i
    by (rule getUint16_range)
  have z: "(getUint16 buf i < 1 \<or> 65535 < getUint16 buf i) \<longleftrightarrow> getUint16 buf i = 0" for i
    using r [of i] by auto
  show ?thesis
    unfolding Let_def
    by (intro conjI allI impI; (rule z)?)
       (auto simp: decodeProxyMessage_def Let_def split: if_splits)
qed

theorem C6_decode_fails_exactly_when_malformed_witness:
  "isl (decodeProxyMessage [1, 2, 3]) \<and>
   decodeProxyMessage [7, 56, 46, 56, 46, 56, 46, 56, 0, 53, 1, 2, 3] =
     Inr \<lparr>targetHost = js ''8.8.8.8'', targetPort = 53, payload = [1, 2, 3]\<rparr>"
proof (intro conjI)
  show "isl (decodeProxyMessage [1, 2, 3])"
    using C6_decode_fails_exactly_when_malformed [of "[1, 2, 3]"] by (simp add: Let_def)
  let ?buf = "[7, 56, 46, 56, 46, 56, 46, 56, 0, 53, 1, 2, 3] :: buffer"
  have f: "nat (getUint8 ?buf 0) = 7" "getUint16 ?buf (1 + 7) = 53"
    "slice ?buf 1 (1 + 7) = [56, 46, 56, 46, 56, 46, 56]"
    "drop (1 + 7 + 2) ?buf = [1, 2, 3]" "length ?buf = 13"
    by (simp_all add: getUint8_def getUint16_def slice_def)
  have t: "\<not> isl (decodeProxyMessage ?buf) \<and>
           (\<forall>m. decodeProxyMessage ?buf = Inr m \<longrightarrow>
              targetHost m = js ''8.8.8.8'' \<and> targetPort m = 53 \<and> payload m = [1, 2, 3])"
    using C6_decode_fails_exactly_when_malformed [of ?buf]
    by (simp only: Let_def f example_host_decoded) (simp add: js_def)
  then obtain m where m: "decodeProxyMessage ?buf = Inr m"
    by (cases "decodeProxyMessage ?buf") auto
  with t have "targetHost m = js ''8.8.8.8'' \<and> targetPort m = 53 \<and> payload m = [1, 2, 3]"
    by blast
  with m show "decodeProxyMessage ?buf =
     Inr \<lparr>targetHost = js ''8.8.8.8'', targetPort = 53, payload = [1, 2, 3]\<rparr>"
    by (cases m) simp
qed

text \<open>
  C10. \<open>encodeProxyMessage\<close> accepts the empty hostname: for a port in 1..65535 it
  returns a frame whose hostname length byte is 0, and \<open>decodeProxyMessage\<close> rejects
  that frame.
\<close>

theorem C10_empty_hostname_encodes_but_does_not_decode:
  assumes "1 \<le> p" "p \<le> 65535"
  shows "encodeProxyMessage [] p d = Inr (0 # of_int (p div 256) # of_int p # d) \<and>
         getUint8 (0 # of_int (p div 256) # of_int p # d) 0 = 0 \<and>
         decodeProxyMessage (0 # of_int (p div 256) # of_int p # d) =
           Inl (Error (if d = [] then ''Malformed message: too short.''
                       else ''Malformed message: Invalid host or port.''))"
proof -
  have e: "encodeProxyMessage [] p d = Inr (0 # of_int (p div 256) # of_int p # d)"
    using encodeProxyMessage_ok [of "[]" p d] assms by (simp add: TextEncoder_encode_Nil)
  have g: "getUint8 (0 # of_int (p div 256) # of_int p # d) 0 = 0"
    by (simp add: getUint8_def)
  have dec: "decodeProxyMessage (0 # of_int (p div 256) # of_int p # d) =
           Inl (Error (if d = [] then ''Malformed message: too short.''
                       else ''Malformed message: Invalid host or port.''))"
  proof (cases d)
    case Nil
    then show ?thesis by (simp add: decodeProxyMessage_def)
  next
    case (Cons b bs)
    let ?buf = "0 # of_int (p div 256) # of_int p # d"
    have l: "4 \<le> length ?buf" "1 + 0 + 2 \<le> length ?buf" using Cons by simp_all
    have h: "TextDecoder_decode (slice ?buf 1 (1 + 0)) = []"
      by (simp add: slice_def TextDecoder_decode_def bytes_needed_initial)
    have g0: "getUint8 ?buf 0 = int 0" using g by simp
    have "decodeProxyMessage ?buf = Inl (Error ''Malformed message: Invalid host or port.'')"
      by (simp only: decode_of_fields [OF l(1) g0 l(2)] h Let_def) simp
    with Cons show ?thesis by simp
  qed
  from e g dec show ?thesis by simp
qed

theorem C10_empty_hostname_encodes_but_does_not_decode_witness:
  "encodeProxyMessage [] 53 [1] = Inr [0, 0, 53, 1] \<and>
   decodeProxyMessage [0, 0, 53, 1] = Inl (Error ''Malformed message: Invalid host or port.'')"
  using C10_empty_hostname_encodes_but_does_not_decode [of 53 "[1]"] by simp

text \<open>
  C1, as amended. For every host that is well-formed UTF-16 and does not begin with
  U+FEFF, whose UTF-8 encoding has between 1 and 255 bytes, every port in 1..65535 and
  every payload, \<open>decodeProxyMessage\<close> of the frame that \<open>encodeProxyMessage\<close>
  returns succeeds and gives back the host, the port and the payload.
\<close>

theorem C1_round_trip_of_well_formed_hosts:
  assumes "well_formed h" "\<not> starts_with_bom h"
    and "1 \<le> length (TextEncoder_encode h)" "length (TextEncoder_encode h) \<le> 255"
    and "1 \<le> p" "p \<le> 65535"
  shows "\<exists>frame. encodeProxyMessage h p d = Inr frame \<and>
           decodeProxyMessage frame = Inr \<lparr>targetHost = h, targetPort = p, payload = d\<rparr>"
proof -
  let ?hb = "TextEncoder_encode h"
  define frame where "frame = of_nat (length ?hb) # ?hb @ [of_int (p div 256), of_int p] @ d"
  have e: "encodeProxyMessage h p d = Inr frame"
    unfolding frame_def using assms(4-6) by (rule encodeProxyMessage_ok)
  note f = frame_fields [OF assms(4), of "of_int (p div 256)" "of_int p" d, folded frame_def]
  have l: "4 \<le> length frame" "1 + length ?hb + 2 \<le> length frame"
    using assms(3) by (simp_all add: f(1))
  have host: "TextDecoder_decode (slice frame 1 (1 + length ?hb)) = h"
    by (simp only: f(3) text_round_trip [OF assms(1,2)])
  have pt: "getUint16 frame (1 + length ?hb) = p"
    by (simp only: f(4) port_bytes [OF assms(5,6)])
  have ne: "h \<noteq> []"
    using assms(3) by (auto simp: TextEncoder_encode_Nil)
  have "decodeProxyMessage frame = Inr \<lparr>targetHost = h, targetPort = p, payload = d\<rparr>"
    using ne assms(5,6)
    by (simp only: decode_of_fields [OF l(1) f(2) l(2)] host pt f(5) Let_def) simp
  with e show ?thesis by blast
qed

text \<open>
  Without the two conditions on the host the round trip fails. The host that is the one
  code unit D800, an unpaired surrogate, has three bytes of UTF-8 and comes back as
  U+FFFD. The host that is the one code unit FEFF has three bytes of UTF-8 as well, and
  its frame is rejected, since the decoder drops the byte order mark and the hostname it
  leaves is empty.
\<close>

theorem C1_round_trip_counterexample:
  "length (TextEncoder_encode [0xD800]) = 3 \<and>
   encodeProxyMessage [0xD800] 53 [1] = Inr [3, 0xEF, 0xBF, 0xBD, 0, 53, 1] \<and>
   decodeProxyMessage [3, 0xEF, 0xBF, 0xBD, 0, 53, 1] =
     Inr \<lparr>targetHost = [0xFFFD], targetPort = 53, payload = [1]\<rparr> \<and>
   decodeProxyMessage [3, 0xEF, 0xBF, 0xBD, 0, 53, 1] \<noteq>
     Inr \<lparr>targetHost = [0xD800], targetPort = 53, payload = [1]\<rparr> \<and>
   length (TextEncoder_encode [0xFEFF]) = 3 \<and>
   encodeProxyMessage [0xFEFF] 53 [1] = Inr [3, 0xEF, 0xBB, 0xBF, 0, 53, 1] \<and>
   decodeProxyMessage [3, 0xEF, 0xBB, 0xBF, 0, 53, 1] =
     Inl (Error ''Malformed message: Invalid host or port.'')"
proof -
  have e1: "encodeProxyMessage [0xD800] 53 [1] = Inr [3, 0xEF, 0xBF, 0xBD, 0, 53, 1]"
    using encodeProxyMessage_ok [of "[0xD800]" 53 "[1]"] by (simp add: lone_surrogate_bytes)
  have e2: "encodeProxyMessage [0xFEFF] 53 [1] = Inr [3, 0xEF, 0xBB, 0xBF, 0, 53, 1]"
    using encodeProxyMessage_ok [of "[0xFEFF]" 53 "[1]"] by (simp add: bom_bytes)
  have d1: "decodeProxyMessage [3, 0xEF, 0xBF, 0xBD, 0, 53, 1] =
     Inr \<lparr>targetHost = [0xFFFD], targetPort = 53, payload = [1]\<rparr>"
    by (simp add: decodeProxyMessage_def getUint8_def getUint16_def slice_def Let_def
          replacement_decoded)
  have d2: "decodeProxyMessage [3, 0xEF, 0xBB, 0xBF, 0, 53, 1] =
     Inl (Error ''Malformed message: Invalid host or port.'')"
    by (simp add: decodeProxyMessage_def getUint8_def getUint16_def slice_def Let_def
          bom_decoded)
  show ?thesis
    by (simp only: e1 e2 d1 d2 lone_surrogate_bytes bom_bytes) simp
qed

theorem C1_round_trip_of_well_formed_hosts_witness:
  "well_formed (js ''8.8.8.8'') \<and> \<not> starts_with_bom (js ''8.8.8.8'') \<and>
   length (TextEncoder_encode (js ''8.8.8.8'')) = 7 \<and>
   (\<exists>frame. encodeProxyMessage (js ''8.8.8.8'') 53 [1, 2, 3] = Inr frame \<and>
      decodeProxyMessage frame =
        Inr \<lparr>targetHost = js ''8.8.8.8'', targetPort = 53, payload = [1, 2, 3]\<rparr>)"
  using C1_round_trip_of_well_formed_hosts [of "js ''8.8.8.8''" 53 "[1, 2, 3]"]
    example_host_well_formed
  by (simp add: example_host_bytes)

subsection \<open>The relay session\<close>

text \<open>
  C2, as amended. A datagram whose sender's address and port equal the session's proxy
  host is decoded as a frame: on success the one call made is a send of the decoded
  payload to the decoded target on the same socket, on failure the one call made is the
  warning, and no error escapes, so the session goes on. A datagram from any other
  sender, whose port lies in 1..65535 and whose address has at most 255 bytes of UTF-8,
  is answered by one send to the proxy host of the frame encoded from the sender's
  address, the sender's port and the datagram.
\<close>

theorem C2_relay_forwards_by_sender:
  "(JStr a = address host \<and> JNum p = port host \<longrightarrow>
      socket_data host availablePort buf p a =
        (case decodeProxyMessage buf of
           Inl (Error msg) \<Rightarrow> Inr [Warn availablePort msg]
         | Inr m \<Rightarrow> Inr [Send (payload m) (JNum (targetPort m)) (JStr (targetHost m))])) \<and>
   (\<not> (JStr a = address host \<and> JNum p = port host) \<and>
    length (TextEncoder_encode a) \<le> 255 \<and> 1 \<le> p \<and> p \<le> 65535 \<longrightarrow>
      (\<exists>frame. encodeProxyMessage a p buf = Inr frame \<and>
         socket_data host availablePort buf p a = Inr [Send frame (port host) (address host)]))"
proof (intro conjI impI)
  assume "JStr a = address host \<and> JNum p = port host"
  then show "socket_data host availablePort buf p a =
        (case decodeProxyMessage buf of
           Inl (Error msg) \<Rightarrow> Inr [Warn availablePort msg]
         | Inr m \<Rightarrow> Inr [Send (payload m) (JNum (targetPort m)) (JStr (targetHost m))])"
    by (simp add: socket_data_def)
next
  assume h: "\<not> (JStr a = address host \<and> JNum p = port host) \<and>
    length (TextEncoder_encode a) \<le> 255 \<and> 1 \<le> p \<and> p \<le> 65535"
  then obtain frame where f: "encodeProxyMessage a p buf = Inr frame"
    using encodeProxyMessage_ok [of a p buf] by simp
  moreover from h have n: "\<not> (JStr a = address host \<and> JNum p = port host)"
    by (rule conjunct1)
  have "socket_data host availablePort buf p a = Inr [Send frame (port host) (address host)]"
    by (simp only: socket_data_def Let_def if_not_P [OF n] f) simp
  ultimately show "\<exists>frame. encodeProxyMessage a p buf = Inr frame \<and>
         socket_data host availablePort buf p a = Inr [Send frame (port host) (address host)]"
    by blast
qed

text \<open>
  A datagram from a sender that is not the proxy host and whose source port is 0: the
  encoder refuses the port, its error leaves the callback, and nothing is sent.
\<close>

theorem C2_relay_counterexample:
  "socket_data \<lparr>address = JStr (js ''127.0.0.1''), port = JNum 9999\<rparr> 10000 [1, 2, 3] 0
     (js ''8.8.8.8'') =
   Inl (Error ''Target port must be between 1 and 65535.'')"
  by (simp add: socket_data_def encodeProxyMessage_def Let_def example_host_bytes
        example_hosts_differ)

theorem C2_relay_forwards_by_sender_witness:
  "socket_data \<lparr>address = JStr (js ''127.0.0.1''), port = JNum 9999\<rparr> 10000
     [7, 56, 46, 56, 46, 56, 46, 56, 0, 53, 1, 2, 3] 9999 (js ''127.0.0.1'') =
     Inr [Send [1, 2, 3] (JNum 53) (JStr (js ''8.8.8.8''))] \<and>
   socket_data \<lparr>address = JStr (js ''127.0.0.1''), port = JNum 9999\<rparr> 10000
     [1, 2, 3] 9999 (js ''127.0.0.1'') =
     Inr [Warn 10000 ''Malformed message: too short.''] \<and>
   (\<exists>frame. encodeProxyMessage (js ''8.8.8.8'') 53 [1, 2, 3] = Inr frame \<and>
      socket_data \<lparr>address = JStr (js ''127.0.0.1''), port = JNum 9999\<rparr> 10000
        [1, 2, 3] 53 (js ''8.8.8.8'') =
      Inr [Send frame (JNum 9999) (JStr (js ''127.0.0.1''))])"
proof (intro conjI)
  let ?host = "\<lparr>address = JStr (js ''127.0.0.1''), port = JNum 9999\<rparr>"
  have d: "decodeProxyMessage [7, 56, 46, 56, 46, 56, 46, 56, 0, 53, 1, 2, 3] =
     Inr \<lparr>targetHost = js ''8.8.8.8'', targetPort = 53, payload = [1, 2, 3]\<rparr>"
    by (simp add: decodeProxyMessage_def getUint8_def getUint16_def slice_def Let_def
          example_host_decoded js_def)
  show "socket_data ?host 10000 [7, 56, 46, 56, 46, 56, 46, 56, 0, 53, 1, 2, 3] 9999
          (js ''127.0.0.1'') = Inr [Send [1, 2, 3] (JNum 53) (JStr (js ''8.8.8.8''))]"
    using C2_relay_forwards_by_sender
            [of "js ''127.0.0.1''" ?host 9999 10000 "[7, 56, 46, 56, 46, 56, 46, 56, 0, 53, 1, 2, 3]"]
    by (simp add: d)
  show "socket_data ?host 10000 [1, 2, 3] 9999 (js ''127.0.0.1'') =
          Inr [Warn 10000 ''Malformed message: too short.'']"
    using C2_relay_forwards_by_sender [of "js ''127.0.0.1''" ?host 9999 10000 "[1, 2, 3]"]
    by (simp add: decodeProxyMessage_def)
  note n = example_hosts_differ
  show "\<exists>frame. encodeProxyMessage (js ''8.8.8.8'') 53 [1, 2, 3] = Inr frame \<and>
      socket_data ?host 10000 [1, 2, 3] 53 (js ''8.8.8.8'') =
      Inr [Send frame (JNum 9999) (JStr (js ''127.0.0.1''))]"
    using C2_relay_forwards_by_sender [of "js ''8.8.8.8''" ?host 53 10000 "[1, 2, 3]"] n
    by (simp add: example_host_bytes)
qed

subsection \<open>The port allocator\<close>

lemma findAvailablePort_from_find:
  "findAvailablePort_from bind s p =
   List.find (\<lambda>q. \<not> has (activeProxies s) q \<and> bind q = Bound) [p..maxProxyPort s]"
proof (induction bind s p rule: findAvailablePort_from.induct)
  case (1 bind s p)
  show ?case
  proof (cases "p \<le> maxProxyPort s")
    case False
    then show ?thesis by (simp add: findAvailablePort_from.simps [of bind s p])
  next
    case True
    then have u: "[p..maxProxyPort s] = p # [p + 1..maxProxyPort s]"
      by (rule upto_rec1)
    show ?thesis
    proof (cases "has (activeProxies s) p")
      case h: True
      with True "1.IH"(1) show ?thesis
        by (simp add: findAvailablePort_from.simps [of bind s p] u)
    next
      case h: False
      show ?thesis
      proof (cases "bind p")
        case Bound
        with True h show ?thesis
          by (simp add: findAvailablePort_from.simps [of bind s p] u)
      next
        case (BindError code msg)
        with True h "1.IH"(2) show ?thesis
          by (simp add: findAvailablePort_from.simps [of bind s p] u)
      qed
    qed
  qed
qed

lemma findAvailablePort_first_free: "findAvailablePort bind s = first_free_port bind s"
  by (simp add: findAvailablePort_def first_free_port_def findAvailablePort_from_find)

lemma findAvailablePort_Some:
  assumes "findAvailablePort bind s = Some q"
  shows "minProxyPort s \<le> q \<and> q \<le> maxProxyPort s \<and> \<not> has (activeProxies s) q \<and> bind q = Bound"
proof -
  from assms have "List.find (\<lambda>q. \<not> has (activeProxies s) q \<and> bind q = Bound)
      [minProxyPort s..maxProxyPort s] = Some q"
    by (simp add: findAvailablePort_first_free first_free_port_def)
  then show ?thesis
    by (auto simp: find_Some_iff)
qed

lemma findAvailablePort_None:
  "findAvailablePort bind s = None \<longleftrightarrow>
   (\<forall>q. minProxyPort s \<le> q \<and> q \<le> maxProxyPort s \<longrightarrow> has (activeProxies s) q \<or> bind q \<noteq> Bound)"
  by (auto simp: findAvailablePort_first_free first_free_port_def find_None_iff)

lemma findAvailablePort_spec_examples:
  assumes "minProxyPort s = 10000" "maxProxyPort s = 10002"
  shows "has (activeProxies s) 10000 \<Longrightarrow> has (activeProxies s) 10001 \<Longrightarrow>
           \<not> has (activeProxies s) 10002 \<Longrightarrow> bind 10002 = Bound \<Longrightarrow>
           findAvailablePort bind s = Some 10002"
    and "has (activeProxies s) 10000 \<Longrightarrow> has (activeProxies s) 10001 \<Longrightarrow>
           has (activeProxies s) 10002 \<Longrightarrow> findAvailablePort bind s = None"
proof -
  have r: "[10000..10002] = [10000, 10001, 10002 :: int]"
    by (simp add: upto.simps)
  show "has (activeProxies s) 10000 \<Longrightarrow> has (activeProxies s) 10001 \<Longrightarrow>
           \<not> has (activeProxies s) 10002 \<Longrightarrow> bind 10002 = Bound \<Longrightarrow>
           findAvailablePort bind s = Some 10002"
    by (simp add: findAvailablePort_first_free first_free_port_def assms r)
  show "has (activeProxies s) 10000 \<Longrightarrow> has (activeProxies s) 10001 \<Longrightarrow>
           has (activeProxies s) 10002 \<Longrightarrow> findAvailablePort bind s = None"
    by (simp add: findAvailablePort_first_free first_free_port_def assms r)
qed

lemma example_allocation: "findAvailablePort (\<lambda>q. Bound) example_service = Some 10000"
  by (simp add: example_service_def findAvailablePort_def ProxBoardService_def has_def
        findAvailablePort_from.simps)

text \<open>
  C3. \<open>findAvailablePort\<close> returns the first port of the range, in ascending order,
  that is not registered and whose bind succeeds, and none when there is no such port
  (\<open>findAvailablePort_first_free\<close>); every failure of a bind moves it to the next
  candidate. The Node variant does not move on when the bind fails with
  \<^verbatim>\<open>EADDRINUSE\<close>: with an empty registry, the range 10000..10002 and port 10000
  held by another process it returns 10000, the port in use, where
  \<open>findAvailablePort\<close> returns 10001.
\<close>

theorem C3_node_allocator_returns_port_in_use:
  "findAvailablePort_node
     (\<lambda>q. if q = 10000 then BindError ''EADDRINUSE'' ''bind EADDRINUSE 0.0.0.0:10000''
          else Bound)
     (ProxBoardService 10000 10002 (js ''token'')) = Some 10000 \<and>
   findAvailablePort
     (\<lambda>q. if q = 10000 then BindError ''EADDRINUSE'' ''bind EADDRINUSE 0.0.0.0:10000''
          else Bound)
     (ProxBoardService 10000 10002 (js ''token'')) = Some 10001"
  by (simp add: findAvailablePort_node_def findAvailablePort_def ProxBoardService_def has_def
        findAvailablePort_node_from.simps findAvailablePort_from.simps)

subsection \<open>The session registry\<close>

lemma get_delete: "get (delete m key) key = None"
  by (cases key) (simp_all add: AList.delete_conv')

lemma get_update: "get (AList.update q v m) (JNum q) = Some v"
  by (simp add: AList.update_conv')

lemma example_create:
  "createProxy (\<lambda>q. Bound) (\<lambda>q. Bound) (JStr (js ''127.0.0.1'')) (JNum k) example_service =
   (\<lparr>status = ''success'', action = Some ''create'',
      message = Some (Template ''Proxy created on port '' (JNum 10000) []),
      proxyPort = Some 10000, proxies = None\<rparr>,
    example_service
      \<lparr>activeProxies :=
         [(10000, \<lparr>proxySocket = 10000,
                   proxyHost = \<lparr>address = JStr (js ''127.0.0.1''), port = JNum k\<rparr>\<rparr>)],
       open_sockets := [10000]\<rparr>)"
  by (simp add: createProxy_def example_allocation example_address_nonempty reply_def)
     (simp add: example_service_def ProxBoardService_def)

text \<open>
  C4. \<open>stopProxy\<close> answers ``Proxy not found.'' and changes nothing when no session
  is registered at the port. Otherwise it succeeds, the session's socket is no longer
  open and the registry has no entry at the port, so that a second \<open>stopProxy\<close> on
  the same port answers ``Proxy not found.''. After a \<open>createProxy\<close> that returned a
  port, \<open>stopProxy\<close> on that port succeeds and a second one does not.
\<close>

theorem C4_stop_not_found_or_removed:
  "(get (activeProxies s) key = None \<longrightarrow>
      stopProxy key s = (reply ''error'' (Some ''stop'') (Text ''Proxy not found.''), s)) \<and>
   (\<forall>proxy. get (activeProxies s) key = Some proxy \<longrightarrow>
      (\<exists>s'. stopProxy key s =
              (reply ''success'' (Some ''stop'') (Template ''Proxy on port '' key '' stopped.''),
               s') \<and>
            get (activeProxies s') key = None \<and>
            proxySocket proxy \<notin> set (open_sockets s') \<and>
            stopProxy key s' =
              (reply ''error'' (Some ''stop'') (Text ''Proxy not found.''), s'))) \<and>
   (\<forall>r s' q. createProxy probe bind a n s = (r, s') \<and> proxyPort r = Some q \<longrightarrow>
      status r = ''success'' \<and>
      (\<exists>s''. stopProxy (JNum q) s' =
               (reply ''success'' (Some ''stop'')
                  (Template ''Proxy on port '' (JNum q) '' stopped.''), s'') \<and>
             stopProxy (JNum q) s'' =
               (reply ''error'' (Some ''stop'') (Text ''Proxy not found.''), s'')))"
proof (intro conjI allI impI)
  assume "get (activeProxies s) key = None"
  then show "stopProxy key s = (reply ''error'' (Some ''stop'') (Text ''Proxy not found.''), s)"
    by (simp add: stopProxy_def)
next
  fix proxy
  assume g: "get (activeProxies s) key = Some proxy"
  define s' where "s' = s\<lparr>open_sockets := removeAll (proxySocket proxy) (open_sockets s),
             activeProxies := delete (activeProxies s) key\<rparr>"
  have "stopProxy key s =
          (reply ''success'' (Some ''stop'') (Template ''Proxy on port '' key '' stopped.''), s')"
    using g by (simp add: stopProxy_def s'_def)
  moreover have n: "get (activeProxies s') key = None"
    by (simp add: s'_def get_delete)
  moreover have "proxySocket proxy \<notin> set (open_sockets s')"
    by (simp add: s'_def)
  moreover have "stopProxy key s' = (reply ''error'' (Some ''stop'') (Text ''Proxy not found.''), s')"
    using n by (simp add: stopProxy_def)
  ultimately show "\<exists>s'. stopProxy key s =
              (reply ''success'' (Some ''stop'') (Template ''Proxy on port '' key '' stopped.''),
               s') \<and>
            get (activeProxies s') key = None \<and>
            proxySocket proxy \<notin> set (open_sockets s') \<and>
            stopProxy key s' =
              (reply ''error'' (Some ''stop'') (Text ''Proxy not found.''), s')"
    by blast
next
  fix r s' q
  assume c: "createProxy probe bind a n s = (r, s') \<and> proxyPort r = Some q"
  then have r: "status r = ''success''"
    and g: "get (activeProxies s') (JNum q) \<noteq> None"
    by (auto simp: createProxy_def reply_def AList.update_conv'
             split: if_splits option.splits bind_result.splits)
  from r show "status r = ''success''" .
  from g obtain proxy where p: "get (activeProxies s') (JNum q) = Some proxy"
    by auto
  define s'' where "s'' = s'\<lparr>open_sockets := removeAll (proxySocket proxy) (open_sockets s'),
             activeProxies := delete (activeProxies s') (JNum q)\<rparr>"
  have "stopProxy (JNum q) s' =
          (reply ''success'' (Some ''stop'') (Template ''Proxy on port '' (JNum q) '' stopped.''),
           s'')"
    using p by (simp add: stopProxy_def s''_def)
  moreover have "get (activeProxies s'') (JNum q) = None"
    unfolding s''_def using get_delete [of "activeProxies s'" "JNum q"] by simp
  then have "stopProxy (JNum q) s'' =
          (reply ''error'' (Some ''stop'') (Text ''Proxy not found.''), s'')"
    by (simp add: stopProxy_def)
  ultimately show "\<exists>s''. stopProxy (JNum q) s' =
               (reply ''success'' (Some ''stop'')
                  (Template ''Proxy on port '' (JNum q) '' stopped.''), s'') \<and>
             stopProxy (JNum q) s'' =
               (reply ''error'' (Some ''stop'') (Text ''Proxy not found.''), s'')"
    by blast
qed

theorem C4_stop_not_found_or_removed_witness:
  "stopProxy (JNum 10000) example_service =
     (reply ''error'' (Some ''stop'') (Text ''Proxy not found.''), example_service) \<and>
   (\<exists>s''. stopProxy (JNum 10000)
            (snd (createProxy (\<lambda>q. Bound) (\<lambda>q. Bound) (JStr (js ''127.0.0.1'')) (JNum 9999)
                    example_service)) =
            (reply ''success'' (Some ''stop'')
               (Template ''Proxy on port '' (JNum 10000) '' stopped.''), s'') \<and>
          stopProxy (JNum 10000) s'' =
            (reply ''error'' (Some ''stop'') (Text ''Proxy not found.''), s''))"
proof
  show "stopProxy (JNum 10000) example_service =
     (reply ''error'' (Some ''stop'') (Text ''Proxy not found.''), example_service)"
    using C4_stop_not_found_or_removed [of example_service "JNum 10000"]
    by (simp add: example_service_def ProxBoardService_def)
  show "\<exists>s''. stopProxy (JNum 10000)
            (snd (createProxy (\<lambda>q. Bound) (\<lambda>q. Bound) (JStr (js ''127.0.0.1'')) (JNum 9999)
                    example_service)) =
            (reply ''success'' (Some ''stop'')
               (Template ''Proxy on port '' (JNum 10000) '' stopped.''), s'') \<and>
          stopProxy (JNum 10000) s'' =
            (reply ''error'' (Some ''stop'') (Text ''Proxy not found.''), s'')"
    using C4_stop_not_found_or_removed
            [of example_service "JNum 10000" "\<lambda>q. Bound" "\<lambda>q. Bound" "JStr (js ''127.0.0.1'')"
               "JNum 9999"]
    by (simp add: example_create)
qed

text \<open>
  C5, as amended. \<open>createProxy\<close> answers ``Invalid proxyHostAddress or
  proxyHostPort.'' exactly when the address is falsy (for a string: empty) or the port
  is not of type number; any number passes, whatever its value. It answers ``No
  available proxy ports.'' when the allocator returns none. Otherwise, when the bind of
  the allocated port succeeds, it registers a new session on that port, which lies in
  the range and was not registered, leaves the other sessions as they were, and returns
  the port in a success response; when that bind fails it answers with the bind's
  message and registers nothing.
\<close>

theorem C5_create_validates_type_only:
  "(\<not> truthy a \<or> \<not> is_number n \<longrightarrow>
      createProxy probe bind a n s =
        (reply ''error'' (Some ''create'') (Text ''Invalid proxyHostAddress or proxyHostPort.''),
         s)) \<and>
   (truthy (JStr h) \<longleftrightarrow> h \<noteq> []) \<and> is_number (JNum k) \<and>
   (truthy a \<and> is_number n \<and> findAvailablePort probe s = None \<longrightarrow>
      createProxy probe bind a n s =
        (reply ''error'' (Some ''create'') (Text ''No available proxy ports.''), s)) \<and>
   (\<forall>q. truthy a \<and> is_number n \<and> findAvailablePort probe s = Some q \<and> bind q = Bound \<longrightarrow>
      (\<exists>r s'. createProxy probe bind a n s = (r, s') \<and>
         status r = ''success'' \<and> action r = Some ''create'' \<and> proxyPort r = Some q \<and>
         get (activeProxies s') (JNum q) =
           Some \<lparr>proxySocket = q, proxyHost = \<lparr>address = a, port = n\<rparr>\<rparr> \<and>
         q \<in> set (open_sockets s') \<and>
         \<not> has (activeProxies s) q \<and> minProxyPort s \<le> q \<and> q \<le> maxProxyPort s \<and>
         (\<forall>j. j \<noteq> q \<longrightarrow> map_of (activeProxies s') j = map_of (activeProxies s) j))) \<and>
   (\<forall>q code msg.
      truthy a \<and> is_number n \<and> findAvailablePort probe s = Some q \<and>
      bind q = BindError code msg \<longrightarrow>
      createProxy probe bind a n s = (reply ''error'' (Some ''create'') (Text msg), s))"
proof (intro conjI allI impI)
  assume "\<not> truthy a \<or> \<not> is_number n"
  then show "createProxy probe bind a n s =
        (reply ''error'' (Some ''create'') (Text ''Invalid proxyHostAddress or proxyHostPort.''),
         s)"
    by (auto simp: createProxy_def)
next
  show "truthy (JStr h) \<longleftrightarrow> h \<noteq> []" by simp
next
  show "is_number (JNum k)" by simp
next
  assume "truthy a \<and> is_number n \<and> findAvailablePort probe s = None"
  then show "createProxy probe bind a n s =
        (reply ''error'' (Some ''create'') (Text ''No available proxy ports.''), s)"
    by (simp add: createProxy_def)
next
  fix q
  assume h: "truthy a \<and> is_number n \<and> findAvailablePort probe s = Some q \<and> bind q = Bound"
  define r where "r = (reply ''success'' (Some ''create'')
                      (Template ''Proxy created on port '' (JNum q) []))
                     \<lparr>proxyPort := Some q\<rparr>"
  define s' where "s' = s\<lparr>activeProxies :=
                       AList.update q
                         \<lparr>proxySocket = q, proxyHost = \<lparr>address = a, port = n\<rparr>\<rparr>
                         (activeProxies s),
                     open_sockets := q # open_sockets s\<rparr>"
  have c: "createProxy probe bind a n s = (r, s')"
    using h by (simp add: createProxy_def r_def s'_def)
  have f: "minProxyPort s \<le> q \<and> q \<le> maxProxyPort s \<and> \<not> has (activeProxies s) q"
    using findAvailablePort_Some [of probe s q] h by simp
  have "status r = ''success'' \<and> action r = Some ''create'' \<and> proxyPort r = Some q"
    by (simp add: r_def reply_def)
  moreover have "get (activeProxies s') (JNum q) =
           Some \<lparr>proxySocket = q, proxyHost = \<lparr>address = a, port = n\<rparr>\<rparr>"
    by (simp add: s'_def AList.update_conv')
  moreover have "q \<in> set (open_sockets s')"
    by (simp add: s'_def)
  moreover have "\<forall>j. j \<noteq> q \<longrightarrow> map_of (activeProxies s') j = map_of (activeProxies s) j"
    by (simp add: s'_def AList.update_conv')
  ultimately show "\<exists>r s'. createProxy probe bind a n s = (r, s') \<and>
         status r = ''success'' \<and> action r = Some ''create'' \<and> proxyPort r = Some q \<and>
         get (activeProxies s') (JNum q) =
           Some \<lparr>proxySocket = q, proxyHost = \<lparr>address = a, port = n\<rparr>\<rparr> \<and>
         q \<in> set (open_sockets s') \<and>
         \<not> has (activeProxies s) q \<and> minProxyPort s \<le> q \<and> q \<le> maxProxyPort s \<and>
         (\<forall>j. j \<noteq> q \<longrightarrow> map_of (activeProxies s') j = map_of (activeProxies s) j)"
    using c f by blast
next
  fix q code msg
  assume "truthy a \<and> is_number n \<and> findAvailablePort probe s = Some q \<and>
      bind q = BindError code msg"
  then show "createProxy probe bind a n s = (reply ''error'' (Some ''create'') (Text msg), s)"
    by (simp add: createProxy_def)
qed

text \<open>
  A port number outside 1..65535 passes the check of \<open>createProxy\<close>: with the
  address 127.0.0.1 and the port 70000 a session is registered and its port returned.
\<close>

theorem C5_create_counterexample:
  "createProxy (\<lambda>q. Bound) (\<lambda>q. Bound) (JStr (js ''127.0.0.1'')) (JNum 70000) example_service =
   (\<lparr>status = ''success'', action = Some ''create'',
      message = Some (Template ''Proxy created on port '' (JNum 10000) []),
      proxyPort = Some 10000, proxies = None\<rparr>,
    example_service
      \<lparr>activeProxies :=
         [(10000, \<lparr>proxySocket = 10000,
                   proxyHost = \<lparr>address = JStr (js ''127.0.0.1''), port = JNum 70000\<rparr>\<rparr>)],
       open_sockets := [10000]\<rparr>)"
  by (rule example_create)

theorem C5_create_validates_type_only_witness:
  "createProxy (\<lambda>q. Bound) (\<lambda>q. Bound) (JStr []) (JNum 9999) example_service =
     (reply ''error'' (Some ''create'') (Text ''Invalid proxyHostAddress or proxyHostPort.''),
      example_service) \<and>
   createProxy (\<lambda>q. BindError ''EADDRINUSE'' ''in use'') (\<lambda>q. Bound) (JStr (js ''127.0.0.1''))
       (JNum 9999) example_service =
     (reply ''error'' (Some ''create'') (Text ''No available proxy ports.''), example_service) \<and>
   (\<exists>r s'. createProxy (\<lambda>q. Bound) (\<lambda>q. Bound) (JStr (js ''127.0.0.1'')) (JNum 9999)
              example_service = (r, s') \<and>
      status r = ''success'' \<and> proxyPort r = Some 10000 \<and>
      get (activeProxies s') (JNum 10000) =
        Some \<lparr>proxySocket = 10000,
              proxyHost = \<lparr>address = JStr (js ''127.0.0.1''), port = JNum 9999\<rparr>\<rparr>)"
proof (intro conjI)
  show "createProxy (\<lambda>q. Bound) (\<lambda>q. Bound) (JStr []) (JNum 9999) example_service =
     (reply ''error'' (Some ''create'') (Text ''Invalid proxyHostAddress or proxyHostPort.''),
      example_service)"
    using C5_create_validates_type_only [of "JStr []" "JNum 9999" "\<lambda>q. Bound" "\<lambda>q. Bound"
            example_service]
    by simp
  have none: "findAvailablePort (\<lambda>q. BindError ''EADDRINUSE'' ''in use'') example_service = None"
    by (simp add: findAvailablePort_None)
  show "createProxy (\<lambda>q. BindError ''EADDRINUSE'' ''in use'') (\<lambda>q. Bound) (JStr (js ''127.0.0.1''))
       (JNum 9999) example_service =
     (reply ''error'' (Some ''create'') (Text ''No available proxy ports.''), example_service)"
    using C5_create_validates_type_only [of "JStr (js ''127.0.0.1'')" "JNum 9999"
            "\<lambda>q. BindError ''EADDRINUSE'' ''in use''" "\<lambda>q. Bound" example_service]
    by (simp add: none example_address_nonempty)
  show "\<exists>r s'. createProxy (\<lambda>q. Bound) (\<lambda>q. Bound) (JStr (js ''127.0.0.1'')) (JNum 9999)
              example_service = (r, s') \<and>
      status r = ''success'' \<and> proxyPort r = Some 10000 \<and>
      get (activeProxies s') (JNum 10000) =
        Some \<lparr>proxySocket = 10000,
              proxyHost = \<lparr>address = JStr (js ''127.0.0.1''), port = JNum 9999\<rparr>\<rparr>"
    using C5_create_validates_type_only [of "JStr (js ''127.0.0.1'')" "JNum 9999"
            "\<lambda>q. Bound" "\<lambda>q. Bound" example_service]
    by (simp add: example_allocation example_address_nonempty) blast
qed

subsection \<open>The registry stays inside the port range\<close>

lemma list_all_update:
  "P (k, v) \<Longrightarrow> list_all P al \<Longrightarrow> list_all P (AList.update k v al)"
  by (induction al) auto

lemma list_all_delete: "list_all P al \<Longrightarrow> list_all P (AList.delete k al)"
  by (induction al) auto

lemma createProxy_bounds:
  "minProxyPort (snd (createProxy probe bind a n s)) = minProxyPort s \<and>
   maxProxyPort (snd (createProxy probe bind a n s)) = maxProxyPort s"
  by (simp add: createProxy_def split: option.splits bind_result.splits)

lemma createProxy_in_range:
  assumes "registry_in_range s"
  shows "registry_in_range (snd (createProxy probe bind a n s))"
proof (cases "findAvailablePort probe s")
  case None
  with assms show ?thesis by (simp add: createProxy_def)
next
  case (Some q)
  then have q: "minProxyPort s \<le> q \<and> q \<le> maxProxyPort s"
    using findAvailablePort_Some [of probe s q] by simp
  have "list_all (\<lambda>(p, proxy). minProxyPort s \<le> p \<and> p \<le> maxProxyPort s)
          (AList.update q v (activeProxies s))" for v
    using assms q by (intro list_all_update) (simp_all add: registry_in_range_def)
  with assms Some show ?thesis
    by (simp add: createProxy_def registry_in_range_def split: bind_result.splits)
qed

lemma stopProxy_in_range:
  assumes "registry_in_range s"
  shows "registry_in_range (snd (stopProxy key s)) \<and>
         minProxyPort (snd (stopProxy key s)) = minProxyPort s \<and>
         maxProxyPort (snd (stopProxy key s)) = maxProxyPort s"
proof (cases key)
  case (JNum k)
  with assms show ?thesis
    by (simp add: stopProxy_def registry_in_range_def list_all_delete split: option.splits)
qed (use assms in \<open>simp_all add: stopProxy_def\<close>)

lemma socket_error_in_range:
  "registry_in_range s \<Longrightarrow> registry_in_range (socket_error p s)"
  by (simp add: socket_error_def registry_in_range_def list_all_delete)

lemma shutdown_fold_in_range:
  "registry_in_range s \<Longrightarrow>
   registry_in_range
     (fold (\<lambda>(p, proxy) s'.
              s'\<lparr>open_sockets := removeAll (proxySocket proxy) (open_sockets s'),
                 activeProxies := AList.delete p (activeProxies s')\<rparr>) xs s) \<and>
   minProxyPort
     (fold (\<lambda>(p, proxy) s'.
              s'\<lparr>open_sockets := removeAll (proxySocket proxy) (open_sockets s'),
                 activeProxies := AList.delete p (activeProxies s')\<rparr>) xs s) = minProxyPort s \<and>
   maxProxyPort
     (fold (\<lambda>(p, proxy) s'.
              s'\<lparr>open_sockets := removeAll (proxySocket proxy) (open_sockets s'),
                 activeProxies := AList.delete p (activeProxies s')\<rparr>) xs s) = maxProxyPort s"
proof (induction xs arbitrary: s)
  case Nil
  then show ?case by simp
next
  case (Cons x xs)
  obtain p proxy where x: "x = (p, proxy)" by (cases x)
  let ?s = "s\<lparr>open_sockets := removeAll (proxySocket proxy) (open_sockets s),
              activeProxies := AList.delete p (activeProxies s)\<rparr>"
  have "registry_in_range ?s"
    using Cons.prems by (simp add: registry_in_range_def list_all_delete)
  from Cons.IH [OF this] show ?case
    by (simp add: x)
qed

lemma apply_operation_in_range:
  assumes "registry_in_range s"
  shows "registry_in_range (apply_operation s op) \<and>
         minProxyPort (apply_operation s op) = minProxyPort s \<and>
         maxProxyPort (apply_operation s op) = maxProxyPort s"
proof (cases op)
  case (Create probe bind a n)
  with assms show ?thesis
    by (simp add: createProxy_in_range createProxy_bounds)
next
  case (Stop key)
  with assms show ?thesis
    by (simp add: stopProxy_in_range)
next
  case List
  with assms show ?thesis by simp
next
  case (SocketError p)
  with assms show ?thesis
    by (simp add: socket_error_in_range) (simp add: socket_error_def)
next
  case Shutdown
  with assms show ?thesis
    by (simp add: shutdown_def shutdown_fold_in_range)
qed

lemma run_in_range:
  "registry_in_range s \<Longrightarrow> registry_in_range (foldl apply_operation s ops)"
  by (induction ops arbitrary: s) (simp_all add: apply_operation_in_range)

text \<open>
  C9. Every key of \<open>activeProxies\<close> lies between \<open>minProxyPort\<close> and
  \<open>maxProxyPort\<close>: the registry of a new service is empty, each operation that
  changes the registry (create, stop, the removal after a socket error, shutdown) keeps
  the keys in the range and leaves the range as it is, and so every run of operations
  from a new service ends in such a registry. A key is only added by \<open>createProxy\<close>,
  with the port that \<open>findAvailablePort\<close> returned.
\<close>

theorem C9_registry_keys_in_range:
  "registry_in_range (ProxBoardService lo hi token) \<and>
   (registry_in_range s \<longrightarrow>
      registry_in_range (apply_operation s op) \<and>
      minProxyPort (apply_operation s op) = minProxyPort s \<and>
      maxProxyPort (apply_operation s op) = maxProxyPort s) \<and>
   registry_in_range (foldl apply_operation (ProxBoardService lo hi token) ops)"
proof -
  have i: "registry_in_range (ProxBoardService lo hi token)"
    by (simp add: registry_in_range_def ProxBoardService_def)
  with apply_operation_in_range [of s op] run_in_range [OF i, of ops] show ?thesis
    by blast
qed

theorem C9_registry_keys_in_range_witness:
  "registry_in_range
     (apply_operation example_service
        (Create (\<lambda>q. Bound) (\<lambda>q. Bound) (JStr (js ''127.0.0.1'')) (JNum 9999))) \<and>
   activeProxies
     (apply_operation example_service
        (Create (\<lambda>q. Bound) (\<lambda>q. Bound) (JStr (js ''127.0.0.1'')) (JNum 9999))) =
     [(10000, \<lparr>proxySocket = 10000,
               proxyHost = \<lparr>address = JStr (js ''127.0.0.1''), port = JNum 9999\<rparr>\<rparr>)]"
proof
  have "registry_in_range example_service"
    using C9_registry_keys_in_range [of 10000 10002 "js ''token''"]
    by (simp add: example_service_def)
  then show "registry_in_range
     (apply_operation example_service
        (Create (\<lambda>q. Bound) (\<lambda>q. Bound) (JStr (js ''127.0.0.1'')) (JNum 9999)))"
    using C9_registry_keys_in_range [of 10000 10002 "js ''token''" example_service]
    by blast
  show "activeProxies
     (apply_operation example_service
        (Create (\<lambda>q. Bound) (\<lambda>q. Bound) (JStr (js ''127.0.0.1'')) (JNum 9999))) =
     [(10000, \<lparr>proxySocket = 10000,
               proxyHost = \<lparr>address = JStr (js ''127.0.0.1''), port = JNum 9999\<rparr>\<rparr>)]"
    by (simp add: example_create)
qed

subsection \<open>The control channel\<close>

lemma action_names_differ:
  "js ''list'' \<noteq> js ''create''" "js ''list'' \<noteq> js ''stop''" "js ''create'' \<noteq> js ''stop''"
  "js ''create'' \<noteq> js ''list''" "js ''stop'' \<noteq> js ''list''" "js ''stop'' \<noteq> js ''create''"
  by (simp_all add: js_def)

lemma null_message_is_unhandled:
  "authenticated c \<Longrightarrow>
   handleWebSocketMessage probe bind s c (Parsed JNull) = Inl (Error ''TypeError'')"
  by (simp add: handleWebSocketMessage_def handleAuthenticatedMessage_def)

lemma authenticated_message_keeps_open:
  assumes "authenticated c" "closed c = None" "action_readable m"
  shows "\<exists>s' c'. handleWebSocketMessage probe bind s c m = Inr (s', c') \<and>
           authenticated c' \<and> closed c' = None"
proof (cases m)
  case (SyntaxError msg)
  with assms show ?thesis
    by (simp add: handleWebSocketMessage_def ws_send_def)
next
  case (Parsed data)
  with assms(3) obtain act where a: "get_prop data ''action'' = Inr act"
    by (cases "get_prop data ''action''") auto
  with assms(1,2) Parsed show ?thesis
    by (auto simp: handleWebSocketMessage_def handleAuthenticatedMessage_def ws_send_def
             split: prod.splits)
qed

lemma authenticated_run_keeps_open:
  "authenticated c \<Longrightarrow> closed c = None \<Longrightarrow> list_all action_readable ms \<Longrightarrow>
   \<exists>s' c'. ws_messages probe bind (s, c) ms = Inr (s', c') \<and>
     authenticated c' \<and> closed c' = None"
proof (induction ms arbitrary: s c)
  case Nil
  then show ?case by simp
next
  case (Cons m ms)
  from Cons.prems have m: "action_readable m" and ms: "list_all action_readable ms"
    by simp_all
  from authenticated_message_keeps_open [OF Cons.prems(1,2) m, of probe bind s]
  obtain s' c' where h: "handleWebSocketMessage probe bind s c m = Inr (s', c')"
    and k: "authenticated c'" "closed c' = None"
    by blast
  from Cons.IH [OF k ms, of s'] Cons.prems(2) h show ?case by simp
qed

text \<open>
  C8. A connection is opened unauthenticated with the 5000 ms timer pending. On a
  connection that is not authenticated and not closed: the timer's callback closes it
  with code 4001, ``Authentication required''; an \<^verbatim>\<open>auth\<close> message whose token is not
  the access token closes it with 4003, ``Invalid token'', and so does every message
  with another action, a command included; a message that does not parse closes it with
  4002, ``Malformed auth message''; the three differ, and none of these messages changes
  the service. An \<^verbatim>\<open>auth\<close> message with the access token leaves the connection open
  and authenticated with no timer pending, sends the acknowledgement, and the timer's
  callback would then change nothing. From then on a \<^verbatim>\<open>list\<close>, \<^verbatim>\<open>create\<close> or
  \<^verbatim>\<open>stop\<close> message is answered with the reply of \<open>listProxies\<close>, \<open>createProxy\<close> or
  \<open>stopProxy\<close>, and after every run of messages of which the action can be read, so
  after every run of commands, the connection is still authenticated and open. (A
  message that parses to \<^verbatim>\<open>null\<close> ends the run: \<open>null_message_is_unhandled\<close>.)
\<close>

theorem C8_authentication_gate:
  "authTimeout handleWebSocketOpen = Some 5000 \<and>
   \<not> authenticated handleWebSocketOpen \<and> closed handleWebSocketOpen = None \<and>
   (\<not> authenticated c \<and> closed c = None \<longrightarrow>
      closed (authTimeout_callback c) = Some (4001, ''Authentication required'') \<and>
      (\<forall>props t. map_of props ''action'' = Some (JStr (js ''auth'')) \<and>
                 map_of props ''token'' = Some t \<and> t \<noteq> JStr (accessToken s) \<longrightarrow>
         (\<exists>c''. handleWebSocketMessage probe bind s c (Parsed (JObject props)) = Inr (s, c'') \<and>
            closed c'' = Some (4003, ''Invalid token''))) \<and>
      (\<forall>props act. map_of props ''action'' = Some act \<and> act \<noteq> JStr (js ''auth'') \<longrightarrow>
         (\<exists>c''. handleWebSocketMessage probe bind s c (Parsed (JObject props)) = Inr (s, c'') \<and>
            closed c'' = Some (4003, ''Invalid token''))) \<and>
      (\<exists>c''. handleWebSocketMessage probe bind s c (SyntaxError msg) = Inr (s, c'') \<and>
         closed c'' = Some (4002, ''Malformed auth message'')) \<and>
      (\<forall>props. map_of props ''action'' = Some (JStr (js ''auth'')) \<and>
               map_of props ''token'' = Some (JStr (accessToken s)) \<longrightarrow>
         (\<exists>c'. handleWebSocketMessage probe bind s c (Parsed (JObject props)) = Inr (s, c') \<and>
            authenticated c' \<and> authTimeout c' = None \<and> closed c' = None \<and>
            sent c' = sent c @ [reply ''success'' None (Text ''Authenticated'')] \<and>
            authTimeout_callback c' = c'))) \<and>
   (4001, ''Authentication required'') \<noteq> (4003 :: nat, ''Invalid token'') \<and>
   (4001, ''Authentication required'') \<noteq> (4002 :: nat, ''Malformed auth message'') \<and>
   (4003, ''Invalid token'') \<noteq> (4002 :: nat, ''Malformed auth message'') \<and>
   (authenticated c' \<and> closed c' = None \<longrightarrow>
      (\<forall>props.
         (map_of props ''action'' = Some (JStr (js ''list'')) \<longrightarrow>
            handleWebSocketMessage probe bind s c' (Parsed (JObject props)) =
              Inr (s, ws_send c' (listProxies s))) \<and>
         (map_of props ''action'' = Some (JStr (js ''create'')) \<longrightarrow>
            handleWebSocketMessage probe bind s c' (Parsed (JObject props)) =
              Inr (snd (createProxy probe bind (property (JObject props) ''proxyHostAddress'')
                          (property (JObject props) ''proxyHostPort'') s),
                   ws_send c'
                     (fst (createProxy probe bind
                             (property (JObject props) ''proxyHostAddress'')
                             (property (JObject props) ''proxyHostPort'') s)))) \<and>
         (map_of props ''action'' = Some (JStr (js ''stop'')) \<longrightarrow>
            handleWebSocketMessage probe bind s c' (Parsed (JObject props)) =
              Inr (snd (stopProxy (property (JObject props) ''proxyPort'') s),
                   ws_send c' (fst (stopProxy (property (JObject props) ''proxyPort'') s))))) \<and>
      (\<forall>ms. list_all action_readable ms \<longrightarrow>
         (\<exists>s' c''. ws_messages probe bind (s, c') ms = Inr (s', c'') \<and>
            authenticated c'' \<and> closed c'' = None)))"
proof (intro conjI impI allI)
  show "authTimeout handleWebSocketOpen = Some 5000"
    "\<not> authenticated handleWebSocketOpen" "closed handleWebSocketOpen = None"
    by (simp_all add: handleWebSocketOpen_def)
next
  assume "\<not> authenticated c \<and> closed c = None"
  then show "closed (authTimeout_callback c) = Some (4001, ''Authentication required'')"
    by (simp add: authTimeout_callback_def ws_close_def)
next
  fix props t
  assume "\<not> authenticated c \<and> closed c = None"
    and "map_of props ''action'' = Some (JStr (js ''auth'')) \<and>
         map_of props ''token'' = Some t \<and> t \<noteq> JStr (accessToken s)"
  then show "\<exists>c''. handleWebSocketMessage probe bind s c (Parsed (JObject props)) = Inr (s, c'') \<and>
            closed c'' = Some (4003, ''Invalid token'')"
    by (simp add: handleWebSocketMessage_def property_def ws_close_def ws_send_def)
next
  fix props act
  assume "\<not> authenticated c \<and> closed c = None"
    and "map_of props ''action'' = Some act \<and> act \<noteq> JStr (js ''auth'')"
  then show "\<exists>c''. handleWebSocketMessage probe bind s c (Parsed (JObject props)) = Inr (s, c'') \<and>
            closed c'' = Some (4003, ''Invalid token'')"
    by (simp add: handleWebSocketMessage_def property_def ws_close_def ws_send_def)
next
  assume "\<not> authenticated c \<and> closed c = None"
  then show "\<exists>c''. handleWebSocketMessage probe bind s c (SyntaxError msg) = Inr (s, c'') \<and>
         closed c'' = Some (4002, ''Malformed auth message'')"
    by (simp add: handleWebSocketMessage_def ws_close_def ws_send_def)
next
  fix props
  assume u: "\<not> authenticated c \<and> closed c = None"
    and a: "map_of props ''action'' = Some (JStr (js ''auth'')) \<and>
            map_of props ''token'' = Some (JStr (accessToken s))"
  define c' where "c' = ws_send (c\<lparr>authenticated := True, authTimeout := None\<rparr>)
                            (reply ''success'' None (Text ''Authenticated''))"
  have "handleWebSocketMessage probe bind s c (Parsed (JObject props)) = Inr (s, c')"
    using u a by (simp add: handleWebSocketMessage_def property_def c'_def)
  moreover have "authenticated c' \<and> authTimeout c' = None \<and> closed c' = None \<and>
            sent c' = sent c @ [reply ''success'' None (Text ''Authenticated'')] \<and>
            authTimeout_callback c' = c'"
    using u by (simp add: c'_def ws_send_def authTimeout_callback_def)
  ultimately show "\<exists>c'. handleWebSocketMessage probe bind s c (Parsed (JObject props)) = Inr (s, c') \<and>
            authenticated c' \<and> authTimeout c' = None \<and> closed c' = None \<and>
            sent c' = sent c @ [reply ''success'' None (Text ''Authenticated'')] \<and>
            authTimeout_callback c' = c'"
    by blast
next
  show "(4001, ''Authentication required'') \<noteq> (4003 :: nat, ''Invalid token'')"
    "(4001, ''Authentication required'') \<noteq> (4002 :: nat, ''Malformed auth message'')"
    "(4003, ''Invalid token'') \<noteq> (4002 :: nat, ''Malformed auth message'')"
    by simp_all
next
  fix props
  assume "authenticated c' \<and> closed c' = None"
    and "map_of props ''action'' = Some (JStr (js ''list''))"
  then show "handleWebSocketMessage probe bind s c' (Parsed (JObject props)) =
              Inr (s, ws_send c' (listProxies s))"
    by (simp add: handleWebSocketMessage_def handleAuthenticatedMessage_def)
next
  fix props
  assume "authenticated c' \<and> closed c' = None"
    and "map_of props ''action'' = Some (JStr (js ''create''))"
  then show "handleWebSocketMessage probe bind s c' (Parsed (JObject props)) =
              Inr (snd (createProxy probe bind (property (JObject props) ''proxyHostAddress'')
                          (property (JObject props) ''proxyHostPort'') s),
                   ws_send c'
                     (fst (createProxy probe bind
                             (property (JObject props) ''proxyHostAddress'')
                             (property (JObject props) ''proxyHostPort'') s)))"
    by (simp add: handleWebSocketMessage_def handleAuthenticatedMessage_def
          action_names_differ split: prod.splits)
next
  fix props
  assume "authenticated c' \<and> closed c' = None"
    and "map_of props ''action'' = Some (JStr (js ''stop''))"
  then show "handleWebSocketMessage probe bind s c' (Parsed (JObject props)) =
              Inr (snd (stopProxy (property (JObject props) ''proxyPort'') s),
                   ws_send c' (fst (stopProxy (property (JObject props) ''proxyPort'') s)))"
    by (simp add: handleWebSocketMessage_def handleAuthenticatedMessage_def
          action_names_differ split: prod.splits)
next
  fix ms
  assume "authenticated c' \<and> closed c' = None" and "list_all action_readable ms"
  then show "\<exists>s' c''. ws_messages probe bind (s, c') ms = Inr (s', c'') \<and>
            authenticated c'' \<and> closed c'' = None"
    using authenticated_run_keeps_open [of c' ms probe bind s] by simp
qed

theorem C8_authentication_gate_witness:
  "closed (authTimeout_callback handleWebSocketOpen) = Some (4001, ''Authentication required'') \<and>
   (\<exists>c''. handleWebSocketMessage (\<lambda>q. Bound) (\<lambda>q. Bound) example_service
            handleWebSocketOpen
            (Parsed (JObject [(''action'', JStr (js ''auth'')),
                              (''token'', JStr (js ''wrong''))])) = Inr (example_service, c'') \<and>
      closed c'' = Some (4003, ''Invalid token'')) \<and>
   (\<exists>c'. handleWebSocketMessage (\<lambda>q. Bound) (\<lambda>q. Bound) example_service handleWebSocketOpen
            (Parsed (JObject [(''action'', JStr (js ''auth'')),
                              (''token'', JStr (js ''token''))])) = Inr (example_service, c') \<and>
      authenticated c' \<and> authTimeout c' = None \<and> closed c' = None \<and>
      sent c' = [reply ''success'' None (Text ''Authenticated'')]) \<and>
   (\<exists>s' c''. ws_messages (\<lambda>q. Bound) (\<lambda>q. Bound)
               (example_service, handleWebSocketOpen\<lparr>authenticated := True\<rparr>)
               [Parsed (JObject [(''action'', JStr (js ''list''))]),
                Parsed (JObject [(''action'', JStr (js ''stop'')), (''proxyPort'', JNum 10000)])]
               = Inr (s', c'') \<and>
      authenticated c'' \<and> closed c'' = None)"
proof -
  note T = C8_authentication_gate [where c = handleWebSocketOpen and s = example_service
      and probe = "\<lambda>q. Bound" and bind = "\<lambda>q. Bound"
      and c' = "handleWebSocketOpen\<lparr>authenticated := True\<rparr>"]
  have u: "\<not> authenticated handleWebSocketOpen \<and> closed handleWebSocketOpen = None"
    by (simp add: handleWebSocketOpen_def)
  have e: "sent handleWebSocketOpen = []"
    by (simp add: handleWebSocketOpen_def)
  have w: "map_of [(''action'', JStr (js ''auth'')), (''token'', JStr (js ''wrong''))] ''action''
             = Some (JStr (js ''auth'')) \<and>
           map_of [(''action'', JStr (js ''auth'')), (''token'', JStr (js ''wrong''))] ''token''
             = Some (JStr (js ''wrong'')) \<and>
           JStr (js ''wrong'') \<noteq> JStr (accessToken example_service)"
    by (simp add: example_service_def ProxBoardService_def js_def)
  have r: "map_of [(''action'', JStr (js ''auth'')), (''token'', JStr (js ''token''))] ''action''
             = Some (JStr (js ''auth'')) \<and>
           map_of [(''action'', JStr (js ''auth'')), (''token'', JStr (js ''token''))] ''token''
             = Some (JStr (accessToken example_service))"
    by (simp add: example_service_def ProxBoardService_def)
  have v: "authenticated (handleWebSocketOpen\<lparr>authenticated := True\<rparr>) \<and>
           closed (handleWebSocketOpen\<lparr>authenticated := True\<rparr>) = None"
    by (simp add: handleWebSocketOpen_def)
  have m: "list_all action_readable
             [Parsed (JObject [(''action'', JStr (js ''list''))]),
              Parsed (JObject [(''action'', JStr (js ''stop'')), (''proxyPort'', JNum 10000)])]"
    by simp
  note G = T [THEN conjunct2, THEN conjunct2, THEN conjunct2, THEN conjunct1, THEN mp, OF u]
  note t1 = G [THEN conjunct1]
  note t2 = G [THEN conjunct2, THEN conjunct1, THEN spec, THEN spec, THEN mp, OF w]
  note t3 = G [THEN conjunct2, THEN conjunct2, THEN conjunct2, THEN conjunct2, THEN spec,
               THEN mp, OF r]
  note H = T [THEN conjunct2, THEN conjunct2, THEN conjunct2, THEN conjunct2, THEN conjunct2,
              THEN conjunct2, THEN conjunct2, THEN mp, OF v]
  note t4 = H [THEN conjunct2, THEN spec, THEN mp, OF m]
  from t1 t2 t3 t4 show ?thesis
    by (simp only: e append_Nil) blast
qed

end
